theory Spec2Isabelle
  imports Complex_Main
begin

section \<open>JavaScript values used by the embedding\<close>

text \<open>
  Optional fields and optional chaining (\<^verbatim>\<open>a?.b\<close>) are \<open>option\<close> values; a
  string is truthy when it is present and not empty; a template literal renders
  \<^verbatim>\<open>undefined\<close> as the word itself.
\<close>

definition truthy :: "string option \<Rightarrow> bool" where
  "truthy x = (case x of None \<Rightarrow> False | Some s \<Rightarrow> s \<noteq> [])"

definition js_template :: "string option \<Rightarrow> string" where
  "js_template x = (case x of None \<Rightarrow> ''undefined'' | Some s \<Rightarrow> s)"

text \<open>\<^verbatim>\<open>x || ''\<close> on an optional string.\<close>

definition or_empty :: "string option \<Rightarrow> string" where
  "or_empty x = (case x of None \<Rightarrow> [] | Some s \<Rightarrow> s)"

text \<open>
  \<^verbatim>\<open>String.prototype.trim\<close>. A string of the model is the list of the bytes of its
  UTF-8 encoding. The sequences stripped are the white space and line terminator code
  points of the language: U+0009 to U+000D, U+0020, U+00A0, U+1680, U+2000 to U+200A,
  U+2028, U+2029, U+202F, U+205F, U+3000 and U+FEFF.
\<close>

definition whiteSpace :: "string list" where
  "whiteSpace =
    [[CHR 0x09], [CHR 0x0A], [CHR 0x0B], [CHR 0x0C], [CHR 0x0D], [CHR 0x20],
     [CHR 0xC2, CHR 0xA0], [CHR 0xE1, CHR 0x9A, CHR 0x80],
     [CHR 0xE2, CHR 0x80, CHR 0x80], [CHR 0xE2, CHR 0x80, CHR 0x81],
     [CHR 0xE2, CHR 0x80, CHR 0x82], [CHR 0xE2, CHR 0x80, CHR 0x83],
     [CHR 0xE2, CHR 0x80, CHR 0x84], [CHR 0xE2, CHR 0x80, CHR 0x85],
     [CHR 0xE2, CHR 0x80, CHR 0x86], [CHR 0xE2, CHR 0x80, CHR 0x87],
     [CHR 0xE2, CHR 0x80, CHR 0x88], [CHR 0xE2, CHR 0x80, CHR 0x89],
     [CHR 0xE2, CHR 0x80, CHR 0x8A], [CHR 0xE2, CHR 0x80, CHR 0xA8],
     [CHR 0xE2, CHR 0x80, CHR 0xA9], [CHR 0xE2, CHR 0x80, CHR 0xAF],
     [CHR 0xE2, CHR 0x81, CHR 0x9F], [CHR 0xE3, CHR 0x80, CHR 0x80],
     [CHR 0xEF, CHR 0xBB, CHR 0xBF]]"

function dropLeading :: "string list \<Rightarrow> string \<Rightarrow> string" where
  "dropLeading ws s =
     (case find (\<lambda>w. w \<noteq> [] \<and> take (length w) s = w) ws of
        None \<Rightarrow> s
      | Some w \<Rightarrow> dropLeading ws (drop (length w) s))"
  by pat_completeness auto
termination
proof (relation "measure (\<lambda>(ws, s). length s)")
  show "wf (measure (\<lambda>(ws, s). length s))"
    by simp
next
  fix ws :: "string list" and s w :: string
  assume "find (\<lambda>w. w \<noteq> [] \<and> take (length w) s = w) ws = Some w"
  then have w: "w \<noteq> []" "take (length w) s = w"
    by (auto simp: find_Some_iff)
  from w(2) have "length (take (length w) s) = length w"
    by simp
  then have "length w \<le> length s"
    by simp
  with w(1) show "((ws, drop (length w) s), (ws, s)) \<in> measure (\<lambda>(ws, s). length s)"
    by (cases w) auto
qed

declare dropLeading.simps [simp del]

definition trim :: "string \<Rightarrow> string" where
  "trim s = rev (dropLeading (map rev whiteSpace) (rev (dropLeading whiteSpace s)))"

section \<open>The response of the generative endpoint\<close>

text \<open>
  The fields of \<^verbatim>\<open>GenerateContentResponse\<close> that \<^verbatim>\<open>handleApiResponse\<close> reads.
  \<open>responseText\<close> is the value of the accessor \<^verbatim>\<open>response.text\<close>.
\<close>

record blob =
  mimeType :: "string option"
  data :: "string option"

record part =
  inlineData :: "blob option"
  partText :: "string option"

record content =
  parts :: "part list option"

record candidate =
  content :: "content option"
  finishReason :: "string option"

record promptFeedback =
  blockReason :: "string option"
  blockReasonMessage :: "string option"

record response =
  promptFeedback :: "promptFeedback option"
  candidates :: "candidate list option"
  responseText :: "string option"

text \<open>
  Every failure of \<^verbatim>\<open>handleApiResponse\<close> is a thrown \<^verbatim>\<open>Error\<close>; the three
  throw sites are the three constructors, each carrying the message it builds.
\<close>

datatype api_error =
    PolicyBlocked string
  | AbnormalCompletion string
  | NoImageReturned string

fun error_message :: "api_error \<Rightarrow> string" where
  "error_message (PolicyBlocked m) = m"
| "error_message (AbnormalCompletion m) = m"
| "error_message (NoImageReturned m) = m"

text \<open>\<^verbatim>\<open>response.promptFeedback?.blockReason\<close>\<close>

definition blockReasonOf :: "response \<Rightarrow> string option" where
  "blockReasonOf r =
     (case promptFeedback r of None \<Rightarrow> None | Some pf \<Rightarrow> blockReason pf)"

definition blockReasonMessageOf :: "response \<Rightarrow> string option" where
  "blockReasonMessageOf r =
     (case promptFeedback r of None \<Rightarrow> None | Some pf \<Rightarrow> blockReasonMessage pf)"

text \<open>\<^verbatim>\<open>response.candidates?.[0]\<close>\<close>

definition firstCandidate :: "response \<Rightarrow> candidate option" where
  "firstCandidate r =
     (case candidates r of
        None \<Rightarrow> None
      | Some [] \<Rightarrow> None
      | Some (c # rest) \<Rightarrow> Some c)"

text \<open>\<^verbatim>\<open>response.candidates?.[0]?.content?.parts?.find(part => part.inlineData)\<close>\<close>

definition imagePartFromResponse :: "response \<Rightarrow> part option" where
  "imagePartFromResponse r =
     (case firstCandidate r of
        None \<Rightarrow> None
      | Some c \<Rightarrow>
         (case content c of
            None \<Rightarrow> None
          | Some ct \<Rightarrow>
             (case parts ct of
                None \<Rightarrow> None
              | Some ps \<Rightarrow> find (\<lambda>p. inlineData p \<noteq> None) ps)))"

text \<open>\<^verbatim>\<open>response.candidates?.[0]?.finishReason\<close>\<close>

definition finishReasonOf :: "response \<Rightarrow> string option" where
  "finishReasonOf r =
     (case firstCandidate r of None \<Rightarrow> None | Some c \<Rightarrow> finishReason c)"

text \<open>Steps 3 and 4 of \<^verbatim>\<open>handleApiResponse\<close>: no image part was found.\<close>

definition noImageOutcome :: "response \<Rightarrow> string \<Rightarrow> api_error" where
  "noImageOutcome r context =
     (if truthy (finishReasonOf r) \<and> finishReasonOf r \<noteq> Some ''STOP'' then
        AbnormalCompletion
          (''Image generation for '' @ context @ '' stopped unexpectedly. Reason: ''
             @ js_template (finishReasonOf r)
             @ ''. This often relates to safety settings.'')
      else
        (let textFeedback = map_option trim (responseText r) in
         NoImageReturned
           (''The AI model did not return an image for the '' @ context @ ''. ''
              @ (if truthy textFeedback then
                   ''The model responded with text: '' @ [CHR 0x22]
                     @ js_template textFeedback @ [CHR 0x22]
                 else
                   ''This can happen due to safety filters or if the request is too complex. Please try rephrasing your prompt to be more direct.''))))"

definition handleApiResponse :: "response \<Rightarrow> string \<Rightarrow> api_error + string" where
  "handleApiResponse r context =
     (if truthy (blockReasonOf r) then
        Inl (PolicyBlocked
               (''Request was blocked. Reason: '' @ js_template (blockReasonOf r)
                  @ ''. '' @ or_empty (blockReasonMessageOf r)))
      else
        (case imagePartFromResponse r of
           None \<Rightarrow> Inl (noImageOutcome r context)
         | Some p \<Rightarrow>
            (case inlineData p of
               None \<Rightarrow> Inl (noImageOutcome r context)
             | Some b \<Rightarrow>
                Inr (''data:'' @ js_template (mimeType b) @ '';base64,''
                       @ js_template (data b)))))"

section \<open>Sessions, credits and the generation gate (App.tsx)\<close>

datatype role = AdminRole | UserRole

record user =
  user_id :: string
  email :: string
  password :: "string option"
  credits :: int
  isEnabled :: bool
  role :: role

text \<open>
  The state of the \<^verbatim>\<open>App\<close> component that the gate and the debit read and write.
  \<open>appError\<close> is its \<^verbatim>\<open>error\<close> state (the editor has an \<^verbatim>\<open>error\<close> of its own).
\<close>

record app_state =
  appError :: "string option"
  currentUserId :: "string option"
  showPaywall :: bool
  users :: "user list"

text \<open>\<^verbatim>\<open>users.find(u => u.id === currentUserId)\<close>\<close>

definition currentUser :: "app_state \<Rightarrow> user option" where
  "currentUser app = find (\<lambda>u. Some (user_id u) = currentUserId app) (users app)"

definition updateUserCredits :: "string \<Rightarrow> int \<Rightarrow> app_state \<Rightarrow> app_state" where
  "updateUserCredits userId creditChange app =
     app\<lparr>users :=
           map (\<lambda>u. if user_id u = userId
                     then u\<lparr>credits := max 0 (credits u + creditChange)\<rparr>
                     else u)
               (users app)\<rparr>"

definition checkUserCanGenerate :: "app_state \<Rightarrow> app_state \<times> bool" where
  "checkUserCanGenerate app =
     (case currentUser app of
        None \<Rightarrow>
          (app\<lparr>appError := Some ''You must be logged in to generate images.''\<rparr>, False)
      | Some u \<Rightarrow>
          if \<not> isEnabled u then
            (app\<lparr>appError := Some ''Your account has been disabled by an administrator.''\<rparr>,
             False)
          else if role u \<noteq> AdminRole \<and> credits u \<le> 0 then
            (app\<lparr>showPaywall := True\<rparr>, False)
          else (app, True))"

definition handleToggleUserStatus :: "string \<Rightarrow> app_state \<Rightarrow> app_state" where
  "handleToggleUserStatus userId app =
     app\<lparr>users :=
           map (\<lambda>u. if user_id u = userId then u\<lparr>isEnabled := \<not> isEnabled u\<rparr> else u)
               (users app)\<rparr>"

section \<open>The editor: history, hotspots and generation (views/EditorView.tsx)\<close>

record image_file =
  fileName :: string
  fileData :: string

datatype tab = Retouch | Adjust | Filters | Crop | Combine | Expand

type_synonym point = "rat \<times> rat"

type_synonym crop_box = "rat \<times> rat \<times> rat \<times> rat"

record editor_state =
  history :: "image_file list"
  historyIndex :: int
  isLoading :: bool
  error :: "string option"
  prompt :: string
  editHotspot :: "point option"
  displayHotspot :: "point option"
  activeTab :: tab
  crop :: "crop_box option"
  completedCrop :: "crop_box option"

text \<open>\<^verbatim>\<open>history[i] ?? null\<close>: an index outside the array reads \<^verbatim>\<open>undefined\<close>.\<close>

definition at_index :: "image_file list \<Rightarrow> int \<Rightarrow> image_file option" where
  "at_index hist i =
     (if 0 \<le> i \<and> i < int (length hist) then Some (hist ! nat i) else None)"

definition currentImage :: "editor_state \<Rightarrow> image_file option" where
  "currentImage st = at_index (history st) (historyIndex st)"

definition originalImage :: "editor_state \<Rightarrow> image_file option" where
  "originalImage st = at_index (history st) 0"

definition canUndo :: "editor_state \<Rightarrow> bool" where
  "canUndo st = (historyIndex st > 0)"

definition canRedo :: "editor_state \<Rightarrow> bool" where
  "canRedo st = (historyIndex st < int (length (history st)) - 1)"

text \<open>
  Modelled from the spec: \<^verbatim>\<open>addImageToHistory\<close> of \<^verbatim>\<open>utils/fileHelpers\<close> is
  imported by the editor but is not among the sources. The spec's \<^verbatim>\<open>append(image)\<close>
  "truncates the sequence to [0..index] inclusive, then appends image; index becomes the
  new last position". The pair returned is what the call hands to \<^verbatim>\<open>setHistory\<close> and
  \<^verbatim>\<open>setHistoryIndex\<close>.
\<close>

definition addImageToHistory :: "image_file \<Rightarrow> image_file list \<Rightarrow> int \<Rightarrow> image_file list \<times> int" where
  "addImageToHistory newImage hist idx =
     (let newHistory = take (nat (idx + 1)) hist @ [newImage]
      in (newHistory, int (length newHistory) - 1))"

text \<open>The call \<^verbatim>\<open>addImageToHistory(f, history, historyIndex, setHistory, setHistoryIndex)\<close>.\<close>

definition appendImage :: "image_file \<Rightarrow> editor_state \<Rightarrow> editor_state" where
  "appendImage newImage st =
     (case addImageToHistory newImage (history st) (historyIndex st) of
        (newHistory, newIndex) \<Rightarrow> st\<lparr>history := newHistory, historyIndex := newIndex\<rparr>)"

definition handleImageUpload :: "image_file \<Rightarrow> editor_state \<Rightarrow> editor_state" where
  "handleImageUpload f st =
     st\<lparr>error := None, history := [f], historyIndex := 0, editHotspot := None,
        displayHotspot := None, activeTab := Retouch, crop := None,
        completedCrop := None\<rparr>"

definition handleUndo :: "editor_state \<Rightarrow> editor_state" where
  "handleUndo st =
     (if canUndo st then
        st\<lparr>historyIndex := historyIndex st - 1, editHotspot := None,
           displayHotspot := None\<rparr>
      else st)"

definition handleRedo :: "editor_state \<Rightarrow> editor_state" where
  "handleRedo st =
     (if canRedo st then
        st\<lparr>historyIndex := historyIndex st + 1, editHotspot := None,
           displayHotspot := None\<rparr>
      else st)"

definition handleReset :: "editor_state \<Rightarrow> editor_state" where
  "handleReset st =
     (if length (history st) > 0 then
        st\<lparr>historyIndex := 0, error := None, editHotspot := None,
           displayHotspot := None\<rparr>
      else st)"

definition handleUploadNew :: "editor_state \<Rightarrow> editor_state" where
  "handleUploadNew st =
     st\<lparr>history := [], historyIndex := - 1, error := None, prompt := [],
        editHotspot := None, displayHotspot := None\<rparr>"

text \<open>
  What an awaited call can throw: an \<^verbatim>\<open>Error\<close> with its message, or a value that is
  not an \<^verbatim>\<open>Error\<close> (the readers and the image loader reject with an event).
\<close>

datatype thrown = ErrorObject string | NonError

text \<open>\<^verbatim>\<open>new Error(message)\<close> thrown by \<^verbatim>\<open>handleApiResponse\<close>.\<close>

definition throw_api_error :: "api_error \<Rightarrow> thrown" where
  "throw_api_error e = ErrorObject (error_message e)"

text \<open>The \<^verbatim>\<open>catch\<close> block of \<^verbatim>\<open>handleGenericGeneration\<close>.\<close>

definition catchGeneration :: "thrown \<Rightarrow> editor_state \<Rightarrow> editor_state" where
  "catchGeneration err st =
     (let errorMessage =
            (case err of ErrorObject m \<Rightarrow> m | NonError \<Rightarrow> ''An unknown error occurred.'')
      in st\<lparr>error := Some (''Operation failed. '' @ errorMessage)\<rparr>)"

text \<open>Decimal digits of \<^verbatim>\<open>Date.now()\<close> in a template literal.\<close>

fun decimal :: "nat \<Rightarrow> string" where
  "decimal n =
     (if n < 10 then [char_of (48 + n)]
      else decimal (n div 10) @ [char_of (48 + n mod 10)])"

declare decimal.simps [simp del]

text \<open>
  \<^verbatim>\<open>handleGenericGeneration\<close>. The awaited \<^verbatim>\<open>apiCall()\<close> is given by its outcome
  (\<open>Inl\<close> what it throws, \<open>Inr\<close> the data URL it resolves to). \<^verbatim>\<open>dataURLtoFile\<close> of
  \<^verbatim>\<open>utils/fileHelpers\<close> is not among the sources and is a parameter, as is the clock.
  No other handler runs while the call is awaited: the \<^verbatim>\<open>history\<close> and
  \<^verbatim>\<open>historyIndex\<close> captured by the closure are those of the state passed in.
  The result is \<open>None\<close> for the bare \<^verbatim>\<open>return\<close>, else the boolean returned.
\<close>

definition handleGenericGeneration ::
  "(string \<Rightarrow> string \<Rightarrow> thrown + image_file) \<Rightarrow> nat \<Rightarrow> thrown + string \<Rightarrow> string
     \<Rightarrow> app_state \<times> editor_state \<Rightarrow> (app_state \<times> editor_state) \<times> bool option" where
  "handleGenericGeneration dataURLtoFile now apiCall fileNamePrefix s =
     (case s of (app, st) \<Rightarrow>
      (case checkUserCanGenerate app of (app1, ok) \<Rightarrow>
        if \<not> ok then ((app1, st), None)
        else
          (case currentUser app of
             None \<Rightarrow> ((app1, st), None)
           | Some u \<Rightarrow>
              (let st1 = st\<lparr>isLoading := True, error := None\<rparr> in
               (case apiCall of
                  Inl err \<Rightarrow>
                    ((app1, (catchGeneration err st1)\<lparr>isLoading := False\<rparr>), Some False)
                | Inr imageUrl \<Rightarrow>
                   (case dataURLtoFile imageUrl
                           (fileNamePrefix @ ''-'' @ decimal now @ ''.png'') of
                      Inl err \<Rightarrow>
                        ((app1, (catchGeneration err st1)\<lparr>isLoading := False\<rparr>), Some False)
                    | Inr newImageFile \<Rightarrow>
                       (let st2 = appendImage newImageFile st1;
                            app2 = (if role u \<noteq> AdminRole
                                    then updateUserCredits (user_id u) (- 1) app1
                                    else app1)
                        in ((app2, st2\<lparr>isLoading := False\<rparr>), Some True))))))))"

text \<open>
  \<^verbatim>\<open>handleGenerate\<close>, the Edit operation: its three input checks, the generation, and
  the clearing of the hotspots after a success.
\<close>

definition handleGenerate ::
  "(string \<Rightarrow> string \<Rightarrow> thrown + image_file) \<Rightarrow> nat \<Rightarrow> thrown + string
     \<Rightarrow> app_state \<times> editor_state \<Rightarrow> app_state \<times> editor_state" where
  "handleGenerate dataURLtoFile now apiCall s =
     (case s of (app, st) \<Rightarrow>
       if currentImage st = None then
         (app, st\<lparr>error := Some ''No image loaded to edit.''\<rparr>)
       else if trim (prompt st) = [] then
         (app, st\<lparr>error := Some ''Please enter a description for your edit.''\<rparr>)
       else if editHotspot st = None then
         (app, st\<lparr>error := Some ''Please click on the image to select an area to edit.''\<rparr>)
       else
         (case handleGenericGeneration dataURLtoFile now apiCall ''edited'' (app, st) of
            ((app', st'), success) \<Rightarrow>
              if success = Some True
              then (app', st'\<lparr>editHotspot := None, displayHotspot := None\<rparr>)
              else (app', st')))"

text \<open>
  The other generation handlers. Filter, adjustment and expand refuse without a current
  image; \<^verbatim>\<open>handleCombineImages\<close> is called by the combine panel's \<^verbatim>\<open>handleApply\<close>,
  which wants the current image, a second image and a prompt.
\<close>

definition handleApplyFilter ::
  "(string \<Rightarrow> string \<Rightarrow> thrown + image_file) \<Rightarrow> nat \<Rightarrow> thrown + string
     \<Rightarrow> app_state \<times> editor_state \<Rightarrow> app_state \<times> editor_state" where
  "handleApplyFilter dataURLtoFile now apiCall s =
     (case s of (app, st) \<Rightarrow>
       if currentImage st = None then (app, st\<lparr>error := Some ''No image loaded.''\<rparr>)
       else fst (handleGenericGeneration dataURLtoFile now apiCall ''filtered'' (app, st)))"

definition handleApplyAdjustment ::
  "(string \<Rightarrow> string \<Rightarrow> thrown + image_file) \<Rightarrow> nat \<Rightarrow> thrown + string
     \<Rightarrow> app_state \<times> editor_state \<Rightarrow> app_state \<times> editor_state" where
  "handleApplyAdjustment dataURLtoFile now apiCall s =
     (case s of (app, st) \<Rightarrow>
       if currentImage st = None then (app, st\<lparr>error := Some ''No image loaded.''\<rparr>)
       else fst (handleGenericGeneration dataURLtoFile now apiCall ''adjusted'' (app, st)))"

definition handleExpandImage ::
  "(string \<Rightarrow> string \<Rightarrow> thrown + image_file) \<Rightarrow> nat \<Rightarrow> thrown + string
     \<Rightarrow> app_state \<times> editor_state \<Rightarrow> app_state \<times> editor_state" where
  "handleExpandImage dataURLtoFile now apiCall s =
     (case s of (app, st) \<Rightarrow>
       if currentImage st = None then (app, st\<lparr>error := Some ''No image loaded.''\<rparr>)
       else fst (handleGenericGeneration dataURLtoFile now apiCall ''expanded'' (app, st)))"

definition handleCombineImages ::
  "(string \<Rightarrow> string \<Rightarrow> thrown + image_file) \<Rightarrow> nat \<Rightarrow> thrown + string
     \<Rightarrow> app_state \<times> editor_state \<Rightarrow> app_state \<times> editor_state" where
  "handleCombineImages dataURLtoFile now apiCall s =
     fst (handleGenericGeneration dataURLtoFile now apiCall ''combined'' s)"

definition handleApply ::
  "(string \<Rightarrow> string \<Rightarrow> thrown + image_file) \<Rightarrow> nat \<Rightarrow> thrown + string
     \<Rightarrow> image_file option \<Rightarrow> string
     \<Rightarrow> app_state \<times> editor_state \<Rightarrow> app_state \<times> editor_state" where
  "handleApply dataURLtoFile now apiCall image2 panelPrompt s =
     (case s of (app, st) \<Rightarrow>
       if currentImage st \<noteq> None \<and> image2 \<noteq> None \<and> panelPrompt \<noteq> []
       then handleCombineImages dataURLtoFile now apiCall (app, st)
       else (app, st))"

text \<open>\<^verbatim>\<open>handleImageClick\<close> on the retouch tab, given the two points it computes.\<close>

definition handleImageClick :: "point \<Rightarrow> point \<Rightarrow> editor_state \<Rightarrow> editor_state" where
  "handleImageClick shown original st =
     (if activeTab st \<noteq> Retouch then st
      else st\<lparr>displayHotspot := Some shown, editHotspot := Some original\<rparr>)"

section \<open>Expand pre-processing (generateExpandedImage)\<close>

datatype direction = Top | Bottom | Left | Right

text \<open>
  The local variables of \<^verbatim>\<open>generateExpandedImage\<close> after its \<^verbatim>\<open>switch\<close>, from
  the image's \<^verbatim>\<open>naturalWidth\<close> and \<^verbatim>\<open>naturalHeight\<close> (non-negative integers).
  The numbers are rationals: halving an integer and adding it back is exact in the
  source's number type for any image dimension.
\<close>

record expand_vars =
  newWidth :: rat
  newHeight :: rat
  drawX :: rat
  drawY :: rat

definition EXPANSION_FACTOR :: rat where
  "EXPANSION_FACTOR = 1 / 2"

definition expandVars :: "direction \<Rightarrow> nat \<Rightarrow> nat \<Rightarrow> expand_vars" where
  "expandVars dir naturalWidth naturalHeight =
     (let init = \<lparr>newWidth = of_nat naturalWidth, newHeight = of_nat naturalHeight,
                   drawX = 0, drawY = 0\<rparr>
      in case dir of
           Top \<Rightarrow>
             init\<lparr>newHeight := newHeight init + of_nat naturalHeight * EXPANSION_FACTOR,
                  drawY := of_nat naturalHeight * EXPANSION_FACTOR\<rparr>
         | Bottom \<Rightarrow>
             init\<lparr>newHeight := newHeight init + of_nat naturalHeight * EXPANSION_FACTOR\<rparr>
         | Left \<Rightarrow>
             init\<lparr>newWidth := newWidth init + of_nat naturalWidth * EXPANSION_FACTOR,
                  drawX := of_nat naturalWidth * EXPANSION_FACTOR\<rparr>
         | Right \<Rightarrow>
             init\<lparr>newWidth := newWidth init + of_nat naturalWidth * EXPANSION_FACTOR\<rparr>)"

text \<open>
  \<^verbatim>\<open>canvas.width = newWidth\<close> and \<^verbatim>\<open>canvas.height = newHeight\<close>: the two attributes
  of a canvas are unsigned integers, and a number assigned to one is truncated to its
  integer part. (The numbers here are not negative, and for the dimensions of an image
  they are far below the largest value the attribute takes.)
\<close>

definition canvasDimension :: "rat \<Rightarrow> nat" where
  "canvasDimension x = nat \<lfloor>x\<rfloor>"

text \<open>
  The canvas composed: its width and height after the two assignments, and the
  position \<^verbatim>\<open>drawImage(img, drawX, drawY)\<close> draws the original at, in its natural size.
\<close>

record canvas_layout =
  canvasWidth :: nat
  canvasHeight :: nat
  imageX :: rat
  imageY :: rat

definition expandLayout :: "direction \<Rightarrow> nat \<Rightarrow> nat \<Rightarrow> canvas_layout" where
  "expandLayout dir naturalWidth naturalHeight =
     (let v = expandVars dir naturalWidth naturalHeight
      in \<lparr>canvasWidth = canvasDimension (newWidth v),
          canvasHeight = canvasDimension (newHeight v),
          imageX = drawX v, imageY = drawY v\<rparr>)"

section \<open>What a response carries, read off its fields\<close>

text \<open>
  The conditions the classification is stated in: a block reason is present, the parts
  of the first candidate hold inline image data, the first candidate's finish reason is
  present and is not \<^verbatim>\<open>STOP\<close>.
\<close>

definition carriesBlockReason :: "response \<Rightarrow> bool" where
  "carriesBlockReason r =
     (case promptFeedback r of
        None \<Rightarrow> False
      | Some pf \<Rightarrow> (case blockReason pf of None \<Rightarrow> False | Some s \<Rightarrow> s \<noteq> []))"

definition firstCandidateParts :: "response \<Rightarrow> part list" where
  "firstCandidateParts r =
     (case candidates r of
        Some (c # rest) \<Rightarrow>
          (case content c of
             Some ct \<Rightarrow> (case parts ct of Some ps \<Rightarrow> ps | None \<Rightarrow> [])
           | None \<Rightarrow> [])
      | _ \<Rightarrow> [])"

definition embeddedImages :: "response \<Rightarrow> blob list" where
  "embeddedImages r = List.map_filter inlineData (firstCandidateParts r)"

definition nonNormalFinish :: "response \<Rightarrow> bool" where
  "nonNormalFinish r =
     (case candidates r of
        Some (c # rest) \<Rightarrow>
          (case finishReason c of None \<Rightarrow> False | Some s \<Rightarrow> s \<noteq> [] \<and> s \<noteq> ''STOP'')
      | _ \<Rightarrow> False)"

definition dataUrl :: "blob \<Rightarrow> string" where
  "dataUrl b = ''data:'' @ js_template (mimeType b) @ '';base64,'' @ js_template (data b)"

subsection \<open>Example responses\<close>

definition imagePart :: part where
  "imagePart =
     \<lparr>inlineData = Some \<lparr>mimeType = Some ''image/png'', data = Some ''AAAA''\<rparr>,
      partText = None\<rparr>"

definition textPart :: part where
  "textPart = \<lparr>inlineData = None, partText = Some ''no''\<rparr>"

definition imageCandidate :: candidate where
  "imageCandidate =
     \<lparr>content = Some \<lparr>parts = Some [textPart, imagePart]\<rparr>, finishReason = Some ''STOP''\<rparr>"

definition textCandidate :: candidate where
  "textCandidate =
     \<lparr>content = Some \<lparr>parts = Some [textPart]\<rparr>, finishReason = Some ''STOP''\<rparr>"

definition safetyFeedback :: promptFeedback where
  "safetyFeedback = \<lparr>blockReason = Some ''SAFETY'', blockReasonMessage = None\<rparr>"

definition blockedWithImage :: response where
  "blockedWithImage =
     \<lparr>promptFeedback = Some safetyFeedback, candidates = Some [imageCandidate],
      responseText = None\<rparr>"

definition imageOnly :: response where
  "imageOnly =
     \<lparr>promptFeedback = None, candidates = Some [imageCandidate], responseText = None\<rparr>"

definition safetyNoImage :: response where
  "safetyNoImage =
     \<lparr>promptFeedback = None,
      candidates = Some [\<lparr>content = None, finishReason = Some ''SAFETY''\<rparr>],
      responseText = None\<rparr>"

definition textOnly :: response where
  "textOnly =
     \<lparr>promptFeedback = None, candidates = Some [textCandidate],
      responseText = Some '' no ''\<rparr>"

definition imageInSecond :: response where
  "imageInSecond =
     \<lparr>promptFeedback = None, candidates = Some [textCandidate, imageCandidate],
      responseText = Some ''no''\<rparr>"

definition blockedImageInSecond :: response where
  "blockedImageInSecond =
     \<lparr>promptFeedback = Some safetyFeedback,
      candidates = Some [textCandidate, imageCandidate], responseText = None\<rparr>"

subsection \<open>History navigation and the history invariant\<close>

text \<open>The three navigation handlers as one operation, to run sequences of them.\<close>

datatype nav = Undo | Redo | ResetToOriginal

fun navigate :: "nav \<Rightarrow> editor_state \<Rightarrow> editor_state" where
  "navigate Undo st = handleUndo st"
| "navigate Redo st = handleRedo st"
| "navigate ResetToOriginal st = handleReset st"

text \<open>
  The history invariant, relative to the original upload \<open>orig\<close> of the editing session
  (\<open>None\<close> before any upload): an empty history has index \<open>-1\<close>; a history that is
  not empty has its index within \<open>[0, length - 1]\<close> and the original upload at
  position \<open>0\<close>.
\<close>

definition hist_inv :: "image_file option \<Rightarrow> editor_state \<Rightarrow> bool" where
  "hist_inv orig st =
     (case orig of
        None \<Rightarrow> history st = [] \<and> historyIndex st = - 1
      | Some f \<Rightarrow>
          history st \<noteq> [] \<and> 0 \<le> historyIndex st
          \<and> historyIndex st \<le> int (length (history st)) - 1 \<and> history st ! 0 = f)"

text \<open>The initial values of the editor's \<^verbatim>\<open>useState\<close> calls, and example files.\<close>

definition initialEditor :: editor_state where
  "initialEditor =
     \<lparr>history = [], historyIndex = - 1, isLoading = False, error = None, prompt = [],
      editHotspot = None, displayHotspot = None, activeTab = Retouch, crop = None,
      completedCrop = None\<rparr>"

definition fileA :: image_file where
  "fileA = \<lparr>fileName = ''a.png'', fileData = ''A''\<rparr>"

definition fileB :: image_file where
  "fileB = \<lparr>fileName = ''b.png'', fileData = ''B''\<rparr>"

definition fileC :: image_file where
  "fileC = \<lparr>fileName = ''c.png'', fileData = ''C''\<rparr>"

definition fileD :: image_file where
  "fileD = \<lparr>fileName = ''d.png'', fileData = ''D''\<rparr>"

definition historyABC :: editor_state where
  "historyABC = initialEditor\<lparr>history := [fileA, fileB, fileC], historyIndex := 2\<rparr>"

text \<open>
  States with a hotspot selected: the history \<open>[A, B, C]\<close> after a click on the image
  at the last position, and after a reset to the original and a click.
\<close>

definition clickedAtLast :: editor_state where
  "clickedAtLast = handleImageClick (3, 4) (30, 40) historyABC"

definition clickedAtFirst :: editor_state where
  "clickedAtFirst = handleImageClick (3, 4) (30, 40) (handleReset historyABC)"

subsection \<open>Example sessions\<close>

text \<open>The users the application starts with (\<^verbatim>\<open>initialUsers\<close>).\<close>

definition alice :: user where
  "alice = \<lparr>user_id = ''u001'', email = ''alice@example.com'',
            password = Some ''adminpassword'', credits = 999, isEnabled = True,
            role = AdminRole\<rparr>"

definition bob :: user where
  "bob = \<lparr>user_id = ''u002'', email = ''bob@example.com'',
          password = Some ''password123'', credits = 15, isEnabled = True,
          role = UserRole\<rparr>"

definition charlie :: user where
  "charlie = \<lparr>user_id = ''u003'', email = ''charlie@example.com'',
              password = Some ''password123'', credits = 0, isEnabled = True,
              role = UserRole\<rparr>"

definition diana :: user where
  "diana = \<lparr>user_id = ''u004'', email = ''diana@example.com'',
            password = Some ''password123'', credits = 1, isEnabled = False,
            role = UserRole\<rparr>"

definition initialUsers :: "user list" where
  "initialUsers = [alice, bob, charlie, diana]"

text \<open>The application with the given users and the given user logged in, or nobody.\<close>

definition session :: "user list \<Rightarrow> string option \<Rightarrow> app_state" where
  "session us uid =
     \<lparr>appError = None, currentUserId = uid, showPaywall = False, users = us\<rparr>"

text \<open>
  Charlie (standard role, no credits) and Alice (admin) logged in, each after an
  administrator has disabled the account.
\<close>

definition charlieDisabled :: app_state where
  "charlieDisabled = handleToggleUserStatus ''u003'' (session initialUsers (Some ''u003''))"

definition aliceDisabled :: app_state where
  "aliceDisabled = handleToggleUserStatus ''u001'' (session initialUsers (Some ''u001''))"

text \<open>A \<^verbatim>\<open>dataURLtoFile\<close> that never throws, for the examples.\<close>

definition plainDataURLtoFile :: "string \<Rightarrow> string \<Rightarrow> thrown + image_file" where
  "plainDataURLtoFile url name = Inr \<lparr>fileName = name, fileData = url\<rparr>"

text \<open>
  What the promise of a \<^verbatim>\<open>generate...\<close> call settles to once the endpoint has
  answered with \<open>r\<close>: the data URL, or the \<^verbatim>\<open>Error\<close> thrown by \<^verbatim>\<open>handleApiResponse\<close>.
\<close>

definition apiOutcome :: "response \<Rightarrow> string \<Rightarrow> thrown + string" where
  "apiOutcome r context =
     (case handleApiResponse r context of
        Inl e \<Rightarrow> Inl (throw_api_error e)
      | Inr url \<Rightarrow> Inr url)"

section \<open>Properties of the response normalizer\<close>

lemmas example_defs =
  imagePart_def textPart_def imageCandidate_def textCandidate_def safetyFeedback_def
  blockedWithImage_def imageOnly_def safetyNoImage_def textOnly_def imageInSecond_def
  blockedImageInSecond_def

lemmas observation_defs =
  carriesBlockReason_def firstCandidateParts_def embeddedImages_def nonNormalFinish_def
  List.map_filter_simps

lemma find_inline_map_filter:
  "(case find (\<lambda>p. inlineData p \<noteq> None) ps of None \<Rightarrow> None | Some p \<Rightarrow> inlineData p)
     = (case List.map_filter inlineData ps of [] \<Rightarrow> None | b # bs \<Rightarrow> Some b)"
  by (induction ps) (auto simp: List.map_filter_simps split: option.splits)

lemma image_scan:
  "(case imagePartFromResponse r of None \<Rightarrow> None | Some p \<Rightarrow> inlineData p)
     = (case embeddedImages r of [] \<Rightarrow> None | b # bs \<Rightarrow> Some b)"
proof -
  have "imagePartFromResponse r = find (\<lambda>p. inlineData p \<noteq> None) (firstCandidateParts r)"
    by (simp add: imagePartFromResponse_def firstCandidateParts_def firstCandidate_def
        split: option.splits list.splits)
  then show ?thesis
    using find_inline_map_filter [of "firstCandidateParts r"]
    by (simp add: embeddedImages_def)
qed

lemma truthy_block: "truthy (blockReasonOf r) = carriesBlockReason r"
  by (simp add: truthy_def blockReasonOf_def carriesBlockReason_def split: option.splits)

lemma finish_nonNormal:
  "(truthy (finishReasonOf r) \<and> finishReasonOf r \<noteq> Some ''STOP'') = nonNormalFinish r"
  by (auto simp: truthy_def finishReasonOf_def firstCandidate_def nonNormalFinish_def
      split: option.splits list.splits)

lemma handle_blocked:
  "carriesBlockReason r \<Longrightarrow> \<exists>m. handleApiResponse r ctx = Inl (PolicyBlocked m)"
  by (simp add: handleApiResponse_def truthy_block)

lemma handle_image:
  assumes "\<not> carriesBlockReason r" "embeddedImages r = b # bs"
  shows "handleApiResponse r ctx = Inr (dataUrl b)"
  using assms image_scan [of r]
  by (auto simp: handleApiResponse_def truthy_block dataUrl_def split: option.splits)

lemma handle_no_image:
  assumes "\<not> carriesBlockReason r" "embeddedImages r = []"
  shows "handleApiResponse r ctx = Inl (noImageOutcome r ctx)"
  using assms image_scan [of r]
  by (auto simp: handleApiResponse_def truthy_block split: option.splits)

lemma noImage_abnormal:
  "nonNormalFinish r \<Longrightarrow> \<exists>m. noImageOutcome r ctx = AbnormalCompletion m"
  using finish_nonNormal [of r] by (simp add: noImageOutcome_def)

lemma noImage_none:
  "\<not> nonNormalFinish r \<Longrightarrow> \<exists>m. noImageOutcome r ctx = NoImageReturned m"
  using finish_nonNormal [of r] by (simp add: noImageOutcome_def Let_def)

text \<open>
  C1: the normalizer classifies every response in a fixed order. A response that carries
  a block reason fails as PolicyBlocked, also when an image payload is present; otherwise,
  when the scan finds inline image data (the first such part of the first candidate), the
  call succeeds with the data URL built from it; otherwise a finish reason that is present
  and not \<^verbatim>\<open>STOP\<close> (such as \<^verbatim>\<open>SAFETY\<close>) makes it fail as AbnormalCompletion;
  otherwise it fails as NoImageReturned.
\<close>

theorem handleApiResponse_classification:
  "(carriesBlockReason r \<longrightarrow> (\<exists>m. handleApiResponse r ctx = Inl (PolicyBlocked m)))
   \<and> (\<not> carriesBlockReason r \<longrightarrow>
        (\<forall>b bs. embeddedImages r = b # bs \<longrightarrow> handleApiResponse r ctx = Inr (dataUrl b)))
   \<and> (\<not> carriesBlockReason r \<and> embeddedImages r = [] \<and> nonNormalFinish r \<longrightarrow>
        (\<exists>m. handleApiResponse r ctx = Inl (AbnormalCompletion m)))
   \<and> (\<not> carriesBlockReason r \<and> embeddedImages r = [] \<and> \<not> nonNormalFinish r \<longrightarrow>
        (\<exists>m. handleApiResponse r ctx = Inl (NoImageReturned m)))"
proof (intro conjI impI allI)
  assume "carriesBlockReason r"
  then show "\<exists>m. handleApiResponse r ctx = Inl (PolicyBlocked m)"
    by (rule handle_blocked)
next
  fix b bs
  assume "\<not> carriesBlockReason r" and "embeddedImages r = b # bs"
  then show "handleApiResponse r ctx = Inr (dataUrl b)"
    by (rule handle_image)
next
  assume a: "\<not> carriesBlockReason r \<and> embeddedImages r = [] \<and> nonNormalFinish r"
  then have "handleApiResponse r ctx = Inl (noImageOutcome r ctx)"
    by (simp add: handle_no_image)
  with a noImage_abnormal [of r ctx]
  show "\<exists>m. handleApiResponse r ctx = Inl (AbnormalCompletion m)"
    by auto
next
  assume a: "\<not> carriesBlockReason r \<and> embeddedImages r = [] \<and> \<not> nonNormalFinish r"
  then have "handleApiResponse r ctx = Inl (noImageOutcome r ctx)"
    by (simp add: handle_no_image)
  with a noImage_none [of r ctx]
  show "\<exists>m. handleApiResponse r ctx = Inl (NoImageReturned m)"
    by auto
qed

theorem handleApiResponse_classification_witness:
  "carriesBlockReason blockedWithImage
   \<and> embeddedImages blockedWithImage \<noteq> []
   \<and> (\<exists>m. handleApiResponse blockedWithImage ''edit'' = Inl (PolicyBlocked m))
   \<and> handleApiResponse imageOnly ''edit'' = Inr ''data:image/png;base64,AAAA''
   \<and> (\<exists>m. handleApiResponse safetyNoImage ''edit'' = Inl (AbnormalCompletion m))
   \<and> (\<exists>m. handleApiResponse textOnly ''edit'' = Inl (NoImageReturned m))"
proof -
  have b: "carriesBlockReason blockedWithImage"
    by (simp add: observation_defs example_defs)
  have i: "embeddedImages blockedWithImage \<noteq> []"
    by (simp add: observation_defs example_defs)
  have o: "\<not> carriesBlockReason imageOnly"
    "embeddedImages imageOnly = \<lparr>mimeType = Some ''image/png'', data = Some ''AAAA''\<rparr> # []"
    by (simp_all add: observation_defs example_defs)
  have s: "\<not> carriesBlockReason safetyNoImage \<and> embeddedImages safetyNoImage = []
           \<and> nonNormalFinish safetyNoImage"
    by (simp add: observation_defs example_defs)
  have t: "\<not> carriesBlockReason textOnly \<and> embeddedImages textOnly = []
           \<and> \<not> nonNormalFinish textOnly"
    by (simp add: observation_defs example_defs)
  from b i o s t
    handleApiResponse_classification [of blockedWithImage "''edit''"]
    handleApiResponse_classification [of imageOnly "''edit''"]
    handleApiResponse_classification [of safetyNoImage "''edit''"]
    handleApiResponse_classification [of textOnly "''edit''"]
  show ?thesis
    by (simp add: dataUrl_def js_template_def)
qed

text \<open>
  C10, as stated, would make every response whose first candidate has no inline image
  data fail as AbnormalCompletion or NoImageReturned. A response that also carries a
  block reason fails as PolicyBlocked instead: the block check comes first.
\<close>

theorem first_candidate_only_counterexample:
  "embeddedImages blockedImageInSecond = []
   \<and> handleApiResponse blockedImageInSecond ''edit''
       = Inl (PolicyBlocked ''Request was blocked. Reason: SAFETY. '')"
  by (simp add: observation_defs example_defs handleApiResponse_def truthy_def
      blockReasonOf_def blockReasonMessageOf_def js_template_def or_empty_def)

text \<open>
  C10, amended: only the first candidate is inspected. When the first candidate has no
  inline image data the call fails, as PolicyBlocked when the response carries a block
  reason and as AbnormalCompletion or NoImageReturned otherwise; and the candidates
  after the first never change the result, so an image payload in a later candidate is
  not found.
\<close>

theorem first_candidate_only:
  "(embeddedImages r = [] \<longrightarrow>
      (if carriesBlockReason r
       then (\<exists>m. handleApiResponse r ctx = Inl (PolicyBlocked m))
       else (\<exists>m. handleApiResponse r ctx = Inl (AbnormalCompletion m))
            \<or> (\<exists>m. handleApiResponse r ctx = Inl (NoImageReturned m))))
   \<and> handleApiResponse (r\<lparr>candidates := Some (c # cs)\<rparr>) ctx
       = handleApiResponse (r\<lparr>candidates := Some (c # cs')\<rparr>) ctx"
proof
  show "embeddedImages r = [] \<longrightarrow>
      (if carriesBlockReason r
       then (\<exists>m. handleApiResponse r ctx = Inl (PolicyBlocked m))
       else (\<exists>m. handleApiResponse r ctx = Inl (AbnormalCompletion m))
            \<or> (\<exists>m. handleApiResponse r ctx = Inl (NoImageReturned m)))"
  proof (intro impI, cases "carriesBlockReason r")
    case True
    then show "if carriesBlockReason r
       then (\<exists>m. handleApiResponse r ctx = Inl (PolicyBlocked m))
       else (\<exists>m. handleApiResponse r ctx = Inl (AbnormalCompletion m))
            \<or> (\<exists>m. handleApiResponse r ctx = Inl (NoImageReturned m))"
      by (simp add: handle_blocked)
  next
    case False
    assume e: "embeddedImages r = []"
    with False have "handleApiResponse r ctx = Inl (noImageOutcome r ctx)"
      by (simp add: handle_no_image)
    with False noImage_abnormal [of r ctx] noImage_none [of r ctx]
    show "if carriesBlockReason r
       then (\<exists>m. handleApiResponse r ctx = Inl (PolicyBlocked m))
       else (\<exists>m. handleApiResponse r ctx = Inl (AbnormalCompletion m))
            \<or> (\<exists>m. handleApiResponse r ctx = Inl (NoImageReturned m))"
      by (cases "nonNormalFinish r") auto
  qed
next
  show "handleApiResponse (r\<lparr>candidates := Some (c # cs)\<rparr>) ctx
       = handleApiResponse (r\<lparr>candidates := Some (c # cs')\<rparr>) ctx"
  proof -
    have a: "noImageOutcome (r\<lparr>candidates := Some (c # cs)\<rparr>) ctx
            = noImageOutcome (r\<lparr>candidates := Some (c # cs')\<rparr>) ctx"
      by (simp add: noImageOutcome_def finishReasonOf_def firstCandidate_def)
    have b: "imagePartFromResponse (r\<lparr>candidates := Some (c # cs)\<rparr>)
            = imagePartFromResponse (r\<lparr>candidates := Some (c # cs')\<rparr>)"
      by (simp add: imagePartFromResponse_def firstCandidate_def)
    have c: "blockReasonOf (r\<lparr>candidates := Some (c # cs)\<rparr>)
            = blockReasonOf (r\<lparr>candidates := Some (c # cs')\<rparr>)"
      by (simp add: blockReasonOf_def)
    have d: "blockReasonMessageOf (r\<lparr>candidates := Some (c # cs)\<rparr>)
            = blockReasonMessageOf (r\<lparr>candidates := Some (c # cs')\<rparr>)"
      by (simp add: blockReasonMessageOf_def)
    show ?thesis
      unfolding handleApiResponse_def a b c d by (rule refl)
  qed
qed

theorem first_candidate_only_witness:
  "embeddedImages imageInSecond = []
   \<and> \<not> carriesBlockReason imageInSecond
   \<and> ((\<exists>m. handleApiResponse imageInSecond ''edit'' = Inl (AbnormalCompletion m))
        \<or> (\<exists>m. handleApiResponse imageInSecond ''edit'' = Inl (NoImageReturned m)))"
proof -
  have e: "embeddedImages imageInSecond = []"
    by (simp add: observation_defs example_defs)
  have b: "\<not> carriesBlockReason imageInSecond"
    by (simp add: observation_defs example_defs)
  from e b first_candidate_only [of imageInSecond "''edit''"]
  show ?thesis
    by simp
qed

section \<open>Properties of the history\<close>

lemmas editor_example_defs =
  initialEditor_def fileA_def fileB_def fileC_def fileD_def historyABC_def

lemmas navigation_defs =
  handleUndo_def handleRedo_def handleReset_def canUndo_def canRedo_def

lemma appendImage_history:
  "history (appendImage img st) = take (nat (historyIndex st + 1)) (history st) @ [img]"
  by (simp add: appendImage_def addImageToHistory_def Let_def)

lemma appendImage_index:
  "historyIndex (appendImage img st) = int (length (history (appendImage img st))) - 1"
  by (simp add: appendImage_def addImageToHistory_def Let_def)

lemma navigate_history: "history (navigate n st) = history st"
  by (cases n) (simp_all add: navigation_defs)

lemma navigates_history: "history (fold navigate ns st) = history st"
  by (induction ns arbitrary: st) (simp_all add: navigate_history)

lemma currentImage_in_history: "currentImage st = Some f \<Longrightarrow> f \<in> set (history st)"
  by (auto simp: currentImage_def at_index_def split: if_splits)

text \<open>
  C2: in a history state with sequence \<open>s\<close> and index \<open>i\<close>, \<open>0 \<le> i \<le> length s - 1\<close>,
  appending an image truncates \<open>s\<close> to its first \<open>i + 1\<close> elements, appends the image,
  and moves the index to the new last position, where the appended image is the current
  one. From \<open>[A, B, C]\<close> at index \<open>2\<close>, undo gives index \<open>1\<close> and appending \<open>D\<close> then
  gives \<open>[A, B, D]\<close> at index \<open>2\<close>; no sequence of undo, redo and reset-to-original
  makes \<open>C\<close> the current image again.
\<close>

theorem append_truncates:
  "(0 \<le> historyIndex st \<and> historyIndex st \<le> int (length (history st)) - 1 \<longrightarrow>
      history (appendImage img st) = take (nat (historyIndex st) + 1) (history st) @ [img]
      \<and> historyIndex (appendImage img st) = int (length (history (appendImage img st))) - 1
      \<and> historyIndex (appendImage img st) = historyIndex st + 1
      \<and> currentImage (appendImage img st) = Some img)
   \<and> (history st = [A, B, C] \<and> historyIndex st = 2 \<longrightarrow>
        historyIndex (handleUndo st) = 1
        \<and> history (appendImage D (handleUndo st)) = [A, B, D]
        \<and> historyIndex (appendImage D (handleUndo st)) = 2
        \<and> (C \<notin> {A, B, D} \<longrightarrow>
             (\<forall>ns. currentImage (fold navigate ns (appendImage D (handleUndo st))) \<noteq> Some C)))"
proof (intro conjI impI)
  assume r: "0 \<le> historyIndex st \<and> historyIndex st \<le> int (length (history st)) - 1"
  then have n: "nat (historyIndex st + 1) = nat (historyIndex st) + 1"
    by arith
  show h: "history (appendImage img st)
             = take (nat (historyIndex st) + 1) (history st) @ [img]"
    by (simp only: appendImage_history n)
  show "historyIndex (appendImage img st) = int (length (history (appendImage img st))) - 1"
    by (rule appendImage_index)
  from r have l: "length (take (nat (historyIndex st) + 1) (history st))
                    = nat (historyIndex st) + 1"
    by (simp add: min_def) arith
  from r show i: "historyIndex (appendImage img st) = historyIndex st + 1"
    unfolding appendImage_index h length_append l by simp
  have nth: "history (appendImage img st) ! nat (historyIndex st + 1) = img"
    unfolding h n
    by (rule nth_append_length
          [of "take (nat (historyIndex st) + 1) (history st)" img "[]", unfolded l])
  have rng: "0 \<le> historyIndex st + 1
             \<and> historyIndex st + 1 < int (length (history (appendImage img st)))"
    using r i appendImage_index [of img st] by arith
  show "currentImage (appendImage img st) = Some img"
    unfolding currentImage_def at_index_def i using rng nth by simp
next
  assume a: "history st = [A, B, C] \<and> historyIndex st = 2"
  then show u: "historyIndex (handleUndo st) = 1"
    by (simp add: navigation_defs)
  from a have hu: "history (handleUndo st) = [A, B, C]"
    by (simp add: navigation_defs)
  show h: "history (appendImage D (handleUndo st)) = [A, B, D]"
    by (simp add: appendImage_history u hu)
  show "historyIndex (appendImage D (handleUndo st)) = 2"
    by (simp add: appendImage_index h)
  assume c: "C \<notin> {A, B, D}"
  show "\<forall>ns. currentImage (fold navigate ns (appendImage D (handleUndo st))) \<noteq> Some C"
  proof (intro allI notI)
    fix ns
    assume "currentImage (fold navigate ns (appendImage D (handleUndo st))) = Some C"
    then have "C \<in> set (history (fold navigate ns (appendImage D (handleUndo st))))"
      by (rule currentImage_in_history)
    then have "C \<in> set [A, B, D]"
      by (simp only: navigates_history h)
    with c show False by simp
  qed
qed

theorem append_truncates_witness:
  "history (appendImage fileD (handleUndo historyABC)) = [fileA, fileB, fileD]
   \<and> historyIndex (appendImage fileD (handleUndo historyABC)) = 2
   \<and> currentImage (appendImage fileD (handleUndo historyABC)) = Some fileD
   \<and> currentImage (fold navigate [Redo, Undo, Redo, ResetToOriginal, Redo, Redo]
                      (appendImage fileD (handleUndo historyABC))) \<noteq> Some fileC"
proof -
  have a: "history historyABC = [fileA, fileB, fileC] \<and> historyIndex historyABC = 2"
    by (simp add: editor_example_defs)
  have c: "fileC \<notin> {fileA, fileB, fileD}"
    by (simp add: editor_example_defs)
  have u: "0 \<le> historyIndex (handleUndo historyABC)
           \<and> historyIndex (handleUndo historyABC)
               \<le> int (length (history (handleUndo historyABC))) - 1"
    by (simp add: editor_example_defs navigation_defs)
  have f: "history (appendImage fileD (handleUndo historyABC)) = [fileA, fileB, fileD]
           \<and> historyIndex (appendImage fileD (handleUndo historyABC)) = 2
           \<and> (\<forall>ns. currentImage (fold navigate ns (appendImage fileD (handleUndo historyABC)))
                    \<noteq> Some fileC)"
    using a c append_truncates [of historyABC fileD fileA fileB fileC fileD]
    by blast
  have g: "currentImage (appendImage fileD (handleUndo historyABC)) = Some fileD"
    using u append_truncates [of "handleUndo historyABC" fileD fileA fileB fileC fileD]
    by blast
  from f g show ?thesis
    by blast
qed

text \<open>
  C8: on a history that is not empty, reset-to-original sets the index to \<open>0\<close> and
  leaves the sequence as it is, so the redo branch survives. From \<open>[A, B, C]\<close> at index
  \<open>2\<close> it gives index \<open>0\<close> with all three elements kept, and a redo after it moves to
  index \<open>1\<close>, where \<open>B\<close> is the current image.
\<close>

theorem reset_keeps_sequence:
  "(history st \<noteq> [] \<longrightarrow>
      historyIndex (handleReset st) = 0 \<and> history (handleReset st) = history st)
   \<and> (history st = [A, B, C] \<and> historyIndex st = 2 \<longrightarrow>
        historyIndex (handleReset st) = 0
        \<and> history (handleReset st) = [A, B, C]
        \<and> currentImage (handleReset st) = Some A
        \<and> historyIndex (handleRedo (handleReset st)) = 1
        \<and> history (handleRedo (handleReset st)) = [A, B, C]
        \<and> currentImage (handleRedo (handleReset st)) = Some B)"
  by (simp add: navigation_defs currentImage_def at_index_def)

theorem reset_keeps_sequence_witness:
  "history historyABC \<noteq> []
   \<and> historyIndex (handleReset historyABC) = 0
   \<and> length (history (handleReset historyABC)) = 3
   \<and> currentImage (handleRedo (handleReset historyABC)) = Some fileB"
proof -
  have a: "history historyABC = [fileA, fileB, fileC] \<and> historyIndex historyABC = 2"
    by (simp add: editor_example_defs)
  from a reset_keeps_sequence [of historyABC fileA fileB fileC]
  show ?thesis
    by simp
qed

text \<open>
  C9, as stated, would make every undo and redo call clear the hotspots. The handlers
  act only when \<^verbatim>\<open>canUndo\<close> or \<^verbatim>\<open>canRedo\<close> holds: an undo at index \<open>0\<close> and a redo
  at the last position leave a selected hotspot in place.
\<close>

theorem navigation_clears_hotspot_counterexample:
  "editHotspot clickedAtFirst = Some (30, 40)
   \<and> editHotspot (handleUndo clickedAtFirst) = Some (30, 40)
   \<and> displayHotspot (handleUndo clickedAtFirst) = Some (3, 4)
   \<and> editHotspot (handleRedo clickedAtLast) = Some (30, 40)
   \<and> displayHotspot (handleRedo clickedAtLast) = Some (3, 4)"
  by (simp add: clickedAtFirst_def clickedAtLast_def handleImageClick_def
      editor_example_defs navigation_defs)

text \<open>
  C9, amended: an undo call with index above \<open>0\<close>, a redo call with index below the last
  position, and a reset-to-original call on a history that is not empty each set the
  edit hotspot and the display hotspot to null. With no edit hotspot stored, an Edit
  on a loaded image with a prompt is refused with the request to select an area, and
  changes nothing else. An undo at index \<open>0\<close> and a redo at the last position change
  nothing at all.
\<close>

theorem navigation_clears_hotspot:
  "(canUndo st \<longrightarrow>
      editHotspot (handleUndo st) = None \<and> displayHotspot (handleUndo st) = None)
   \<and> (canRedo st \<longrightarrow>
        editHotspot (handleRedo st) = None \<and> displayHotspot (handleRedo st) = None)
   \<and> (history st \<noteq> [] \<longrightarrow>
        editHotspot (handleReset st) = None \<and> displayHotspot (handleReset st) = None)
   \<and> (editHotspot st = None \<and> currentImage st \<noteq> None \<and> trim (prompt st) \<noteq> [] \<longrightarrow>
        handleGenerate dataURLtoFile now apiCall (app, st)
          = (app, st\<lparr>error := Some ''Please click on the image to select an area to edit.''\<rparr>))
   \<and> (\<not> canUndo st \<longrightarrow> handleUndo st = st)
   \<and> (\<not> canRedo st \<longrightarrow> handleRedo st = st)"
  by (simp add: navigation_defs handleGenerate_def)

theorem navigation_clears_hotspot_witness:
  "canUndo clickedAtLast
   \<and> editHotspot clickedAtLast = Some (30, 40)
   \<and> editHotspot (handleUndo clickedAtLast) = None
   \<and> displayHotspot (handleUndo clickedAtLast) = None
   \<and> canRedo clickedAtFirst
   \<and> editHotspot (handleRedo clickedAtFirst) = None
   \<and> displayHotspot (handleRedo clickedAtFirst) = None
   \<and> editHotspot (handleReset clickedAtLast) = None
   \<and> displayHotspot (handleReset clickedAtLast) = None"
proof -
  have u: "canUndo clickedAtLast" and r: "canRedo clickedAtFirst"
    and h: "history clickedAtLast \<noteq> []" and e: "editHotspot clickedAtLast = Some (30, 40)"
    by (simp_all add: clickedAtFirst_def clickedAtLast_def handleImageClick_def
        editor_example_defs navigation_defs)
  from u r h e
    navigation_clears_hotspot [of clickedAtLast]
    navigation_clears_hotspot [of clickedAtFirst]
  show ?thesis
    by simp
qed

lemma hist_inv_navigate: "hist_inv orig st \<Longrightarrow> hist_inv orig (navigate n st)"
  by (cases n; cases orig) (auto simp: hist_inv_def navigation_defs)

lemma hist_inv_append:
  assumes "hist_inv (Some f) st"
  shows "hist_inv (Some f) (appendImage img st)"
proof -
  from assms have r: "history st \<noteq> []" "0 \<le> historyIndex st"
    "historyIndex st \<le> int (length (history st)) - 1" "history st ! 0 = f"
    by (simp_all add: hist_inv_def)
  then have n: "nat (historyIndex st + 1) = Suc (nat (historyIndex st))"
    by arith
  from r have "(take (Suc (nat (historyIndex st))) (history st) @ [img]) ! 0 = f"
    by (cases "history st") simp_all
  then show ?thesis
    by (simp add: hist_inv_def appendImage_index appendImage_history n)
qed

lemma hist_inv_append_empty:
  "hist_inv None st \<Longrightarrow> hist_inv (Some img) (appendImage img st)"
  by (simp add: hist_inv_def appendImage_def addImageToHistory_def)

lemma generation_history:
  "snd (fst (handleGenericGeneration d now api pfx (app, st))) = st' \<Longrightarrow>
     (history st' = history st \<and> historyIndex st' = historyIndex st)
     \<or> (\<exists>f. history st' = history (appendImage f st)
              \<and> historyIndex st' = historyIndex (appendImage f st))"
  by (auto simp: handleGenericGeneration_def catchGeneration_def Let_def appendImage_def
      addImageToHistory_def split: prod.splits option.splits sum.splits if_splits)

lemma hist_inv_same:
  "history st' = history st \<Longrightarrow> historyIndex st' = historyIndex st \<Longrightarrow>
     hist_inv orig st \<Longrightarrow> hist_inv orig st'"
  by (cases orig) (simp_all add: hist_inv_def)

lemma hist_inv_generation:
  assumes "hist_inv (Some f) st"
  shows "hist_inv (Some f) (snd (fst (handleGenericGeneration d now api pfx (app, st))))"
proof -
  let ?st' = "snd (fst (handleGenericGeneration d now api pfx (app, st)))"
  from generation_history [of d now api pfx app st ?st']
  have "(history ?st' = history st \<and> historyIndex ?st' = historyIndex st)
     \<or> (\<exists>g. history ?st' = history (appendImage g st)
              \<and> historyIndex ?st' = historyIndex (appendImage g st))"
    by simp
  then show ?thesis
  proof
    assume "history ?st' = history st \<and> historyIndex ?st' = historyIndex st"
    with assms show ?thesis by (blast intro: hist_inv_same)
  next
    assume "\<exists>g. history ?st' = history (appendImage g st)
              \<and> historyIndex ?st' = historyIndex (appendImage g st)"
    then obtain g where g: "history ?st' = history (appendImage g st)"
      "historyIndex ?st' = historyIndex (appendImage g st)"
      by blast
    from g hist_inv_append [OF assms, of g] show ?thesis
      by (rule hist_inv_same)
  qed
qed

lemma hist_inv_empty_no_image: "hist_inv None st \<Longrightarrow> currentImage st = None"
  by (simp add: hist_inv_def currentImage_def at_index_def)

lemma hist_inv_error: "hist_inv orig st \<Longrightarrow> hist_inv orig (st\<lparr>error := e\<rparr>)"
  by (rule hist_inv_same) simp_all

lemma hist_inv_hotspots:
  "hist_inv orig st \<Longrightarrow> hist_inv orig (st\<lparr>editHotspot := a, displayHotspot := b\<rparr>)"
  by (rule hist_inv_same) simp_all

lemma hist_inv_guarded:
  assumes "hist_inv orig st"
  shows "hist_inv orig
           (snd (if currentImage st = None then (app, st\<lparr>error := e\<rparr>)
                 else fst (handleGenericGeneration d now api pfx (app, st))))"
proof (cases "currentImage st = None")
  case True
  with assms show ?thesis
    by (simp add: hist_inv_error)
next
  case False
  with assms hist_inv_empty_no_image [of st] obtain f where "orig = Some f"
    by (cases orig) auto
  with assms False hist_inv_generation [of f st d now api pfx app] show ?thesis
    by auto
qed

lemma hist_inv_handleGenerate:
  assumes "hist_inv orig st"
  shows "hist_inv orig (snd (handleGenerate d now api (app, st)))"
proof (cases "currentImage st = None \<or> trim (prompt st) = [] \<or> editHotspot st = None")
  case True
  with assms show ?thesis
    by (auto simp: handleGenerate_def hist_inv_error)
next
  case False
  with assms hist_inv_empty_no_image [of st] obtain f where f: "orig = Some f"
    by (cases orig) auto
  obtain app' st' res where r:
    "handleGenericGeneration d now api ''edited'' (app, st) = ((app', st'), res)"
    by (cases "handleGenericGeneration d now api ''edited'' (app, st)") auto
  with assms f hist_inv_generation [of f st d now api "''edited''" app]
  have "hist_inv orig st'"
    by simp
  with False r show ?thesis
    by (auto simp: handleGenerate_def hist_inv_hotspots)
qed

lemma hist_inv_handleApply:
  assumes "hist_inv orig st"
  shows "hist_inv orig (snd (handleApply d now api image2 p (app, st)))"
proof (cases "currentImage st \<noteq> None \<and> image2 \<noteq> None \<and> p \<noteq> []")
  case False
  with assms show ?thesis
    by (auto simp: handleApply_def)
next
  case True
  with assms hist_inv_empty_no_image [of st] obtain f where "orig = Some f"
    by (cases orig) auto
  with assms True hist_inv_generation [of f st d now api "''combined''" app] show ?thesis
    by (simp add: handleApply_def handleCombineImages_def)
qed

text \<open>
  C5: every history operation keeps the invariant. An upload leaves the one-element
  history with index \<open>0\<close> and the upload at position \<open>0\<close>; the new-session clear leaves the
  empty history with index \<open>-1\<close>, as the initial state has; undo, redo and
  reset-to-original keep the invariant with the same original; so does an append onto a
  history that is not empty, and so does each generation handler, whether it commits,
  fails or refuses (on the empty history the handlers refuse, there being no current
  image). An append onto the empty history, which no handler performs, gives a
  one-element history with index \<open>0\<close>.
\<close>

theorem history_invariant:
  "hist_inv None initialEditor
   \<and> hist_inv (Some f) (handleImageUpload f st)
   \<and> hist_inv None (handleUploadNew st)
   \<and> (hist_inv orig st \<longrightarrow>
        hist_inv orig (handleUndo st) \<and> hist_inv orig (handleRedo st)
        \<and> hist_inv orig (handleReset st))
   \<and> (hist_inv (Some f) st \<longrightarrow>
        hist_inv (Some f) (appendImage img st)
        \<and> hist_inv (Some f)
             (snd (fst (handleGenericGeneration dataURLtoFile now apiCall prefix (app, st)))))
   \<and> (hist_inv orig st \<longrightarrow>
        hist_inv orig (snd (handleGenerate dataURLtoFile now apiCall (app, st)))
        \<and> hist_inv orig (snd (handleApplyFilter dataURLtoFile now apiCall (app, st)))
        \<and> hist_inv orig (snd (handleApplyAdjustment dataURLtoFile now apiCall (app, st)))
        \<and> hist_inv orig (snd (handleExpandImage dataURLtoFile now apiCall (app, st)))
        \<and> hist_inv orig (snd (handleApply dataURLtoFile now apiCall secondImage panelPrompt
                                  (app, st))))
   \<and> (hist_inv None st \<longrightarrow> hist_inv (Some img) (appendImage img st))"
proof (intro conjI impI)
  show "hist_inv None initialEditor"
    by (simp add: hist_inv_def initialEditor_def)
  show "hist_inv (Some f) (handleImageUpload f st)"
    by (simp add: hist_inv_def handleImageUpload_def)
  show "hist_inv None (handleUploadNew st)"
    by (simp add: hist_inv_def handleUploadNew_def)
next
  assume i: "hist_inv orig st"
  from hist_inv_navigate [OF i, of Undo] show "hist_inv orig (handleUndo st)" by simp
  from hist_inv_navigate [OF i, of Redo] show "hist_inv orig (handleRedo st)" by simp
  from hist_inv_navigate [OF i, of ResetToOriginal] show "hist_inv orig (handleReset st)"
    by simp
next
  assume i: "hist_inv (Some f) st"
  then show "hist_inv (Some f) (appendImage img st)"
    by (rule hist_inv_append)
  from i show "hist_inv (Some f)
     (snd (fst (handleGenericGeneration dataURLtoFile now apiCall prefix (app, st))))"
    by (rule hist_inv_generation)
next
  assume i: "hist_inv orig st"
  then show "hist_inv orig (snd (handleGenerate dataURLtoFile now apiCall (app, st)))"
    by (rule hist_inv_handleGenerate)
  from hist_inv_guarded [OF i, where pfx = "''filtered''"]
  show "hist_inv orig (snd (handleApplyFilter dataURLtoFile now apiCall (app, st)))"
    by (simp add: handleApplyFilter_def)
  from hist_inv_guarded [OF i, where pfx = "''adjusted''"]
  show "hist_inv orig (snd (handleApplyAdjustment dataURLtoFile now apiCall (app, st)))"
    by (simp add: handleApplyAdjustment_def)
  from hist_inv_guarded [OF i, where pfx = "''expanded''"]
  show "hist_inv orig (snd (handleExpandImage dataURLtoFile now apiCall (app, st)))"
    by (simp add: handleExpandImage_def)
  from i show "hist_inv orig (snd (handleApply dataURLtoFile now apiCall secondImage panelPrompt
                                  (app, st)))"
    by (rule hist_inv_handleApply)
next
  assume "hist_inv None st"
  then show "hist_inv (Some img) (appendImage img st)"
    by (rule hist_inv_append_empty)
qed

theorem history_invariant_witness:
  "hist_inv (Some fileA) historyABC
   \<and> hist_inv (Some fileA) (handleUndo historyABC)
   \<and> hist_inv (Some fileA) (handleRedo historyABC)
   \<and> hist_inv (Some fileA) (handleReset historyABC)
   \<and> hist_inv (Some fileA) (appendImage fileD historyABC)
   \<and> hist_inv (Some fileA)
        (snd (handleApplyFilter plainDataURLtoFile 0 (Inr ''data:image/png;base64,AAAA'')
                (session initialUsers (Some ''u002''), historyABC)))
   \<and> hist_inv None
        (snd (handleApplyFilter plainDataURLtoFile 0 (Inr ''data:image/png;base64,AAAA'')
                (session initialUsers (Some ''u002''), initialEditor)))
   \<and> hist_inv (Some fileD) (appendImage fileD initialEditor)"
proof -
  have a: "hist_inv (Some fileA) historyABC"
    by (simp add: hist_inv_def editor_example_defs)
  have e: "hist_inv None initialEditor"
    by (simp add: hist_inv_def editor_example_defs)
  from a e
    history_invariant [where f = fileA and st = historyABC and orig = "Some fileA"
      and img = fileD and dataURLtoFile = plainDataURLtoFile and now = 0
      and apiCall = "Inr ''data:image/png;base64,AAAA''" and prefix = "''filtered''"
      and app = "session initialUsers (Some ''u002'')" and secondImage = None
      and panelPrompt = "[]"]
    history_invariant [where f = fileA and st = initialEditor and orig = None
      and img = fileD and dataURLtoFile = plainDataURLtoFile and now = 0
      and apiCall = "Inr ''data:image/png;base64,AAAA''" and prefix = "''filtered''"
      and app = "session initialUsers (Some ''u002'')" and secondImage = None
      and panelPrompt = "[]"]
  show ?thesis
    by blast
qed

section \<open>Properties of the gate and of a generation\<close>

lemmas session_defs =
  alice_def bob_def charlie_def diana_def initialUsers_def session_def currentUser_def

text \<open>
  C4, as stated, would deny every session with no credits and the standard role as
  out of credits, and permit every session with the admin role. The gate looks at the
  enabled flag before the role and the balance: a disabled account is denied with the
  disabled message and without the paywall, whatever its role and balance.
\<close>

theorem gate_signals_counterexample:
  "map_option credits (currentUser charlieDisabled) = Some 0
   \<and> map_option role (currentUser charlieDisabled) = Some UserRole
   \<and> checkUserCanGenerate charlieDisabled
       = (charlieDisabled
            \<lparr>appError := Some ''Your account has been disabled by an administrator.''\<rparr>,
          False)
   \<and> showPaywall (fst (checkUserCanGenerate charlieDisabled)) = False
   \<and> map_option role (currentUser aliceDisabled) = Some AdminRole
   \<and> checkUserCanGenerate aliceDisabled
       = (aliceDisabled
            \<lparr>appError := Some ''Your account has been disabled by an administrator.''\<rparr>,
          False)"
  by (simp add: charlieDisabled_def aliceDisabled_def handleToggleUserStatus_def
      checkUserCanGenerate_def session_defs)

text \<open>
  C4, amended: the gate denies with distinct signals, checked in this order. Without an
  active session it sets the logged-in message; for a disabled account it sets the
  disabled message; both leave the paywall flag alone. For an enabled account of a role
  other than admin with a balance of zero or less it raises the paywall flag and sets no
  error message. An enabled standard session with zero credits is therefore denied by
  the paywall, and an enabled admin session is permitted whatever its balance, as is an
  enabled session with a positive balance; a permitted call changes nothing.
\<close>

theorem gate_signals:
  "(currentUser app = None \<longrightarrow>
      checkUserCanGenerate app
        = (app\<lparr>appError := Some ''You must be logged in to generate images.''\<rparr>, False))
   \<and> (currentUser app = Some u \<and> \<not> isEnabled u \<longrightarrow>
        checkUserCanGenerate app
          = (app\<lparr>appError := Some ''Your account has been disabled by an administrator.''\<rparr>,
             False))
   \<and> (currentUser app = Some u \<and> isEnabled u \<and> role u \<noteq> AdminRole \<and> credits u \<le> 0 \<longrightarrow>
        checkUserCanGenerate app = (app\<lparr>showPaywall := True\<rparr>, False)
        \<and> appError (fst (checkUserCanGenerate app)) = appError app)
   \<and> (currentUser app = Some u \<and> isEnabled u \<and> role u = UserRole \<and> credits u = 0 \<longrightarrow>
        checkUserCanGenerate app = (app\<lparr>showPaywall := True\<rparr>, False))
   \<and> (currentUser app = Some u \<and> isEnabled u \<and> role u = AdminRole \<longrightarrow>
        checkUserCanGenerate app = (app, True))
   \<and> (currentUser app = Some u \<and> isEnabled u \<and> credits u > 0 \<longrightarrow>
        checkUserCanGenerate app = (app, True))
   \<and> ''You must be logged in to generate images.''
        \<noteq> ''Your account has been disabled by an administrator.''"
  by (simp add: checkUserCanGenerate_def)

theorem gate_signals_witness:
  "checkUserCanGenerate (session initialUsers None)
     = ((session initialUsers None)
          \<lparr>appError := Some ''You must be logged in to generate images.''\<rparr>, False)
   \<and> checkUserCanGenerate (session initialUsers (Some ''u004''))
       = ((session initialUsers (Some ''u004''))
            \<lparr>appError := Some ''Your account has been disabled by an administrator.''\<rparr>,
          False)
   \<and> checkUserCanGenerate (session initialUsers (Some ''u003''))
       = ((session initialUsers (Some ''u003''))\<lparr>showPaywall := True\<rparr>, False)
   \<and> checkUserCanGenerate (session [charlie\<lparr>role := AdminRole\<rparr>] (Some ''u003''))
       = (session [charlie\<lparr>role := AdminRole\<rparr>] (Some ''u003''), True)
   \<and> checkUserCanGenerate (session initialUsers (Some ''u002''))
       = (session initialUsers (Some ''u002''), True)"
proof -
  have n: "currentUser (session initialUsers None) = None"
    by (simp add: session_defs)
  have d: "currentUser (session initialUsers (Some ''u004'')) = Some diana \<and> \<not> isEnabled diana"
    by (simp add: session_defs)
  have c: "currentUser (session initialUsers (Some ''u003'')) = Some charlie
           \<and> isEnabled charlie \<and> role charlie = UserRole \<and> credits charlie = 0"
    by (simp add: session_defs)
  have a: "currentUser (session [charlie\<lparr>role := AdminRole\<rparr>] (Some ''u003''))
             = Some (charlie\<lparr>role := AdminRole\<rparr>)
           \<and> isEnabled (charlie\<lparr>role := AdminRole\<rparr>)
           \<and> role (charlie\<lparr>role := AdminRole\<rparr>) = AdminRole
           \<and> credits (charlie\<lparr>role := AdminRole\<rparr>) = 0"
    by (simp add: session_defs)
  have b: "currentUser (session initialUsers (Some ''u002'')) = Some bob
           \<and> isEnabled bob \<and> credits bob > 0"
    by (simp add: session_defs)
  from n d c a b
    gate_signals [of "session initialUsers None"]
    gate_signals [of "session initialUsers (Some ''u004'')" diana]
    gate_signals [of "session initialUsers (Some ''u003'')" charlie]
    gate_signals [of "session [charlie\<lparr>role := AdminRole\<rparr>] (Some ''u003'')"
                     "charlie\<lparr>role := AdminRole\<rparr>"]
    gate_signals [of "session initialUsers (Some ''u002'')" bob]
  show ?thesis
    by simp
qed

lemma gate_permits:
  "checkUserCanGenerate app = (app1, True) \<Longrightarrow>
     app1 = app
     \<and> (\<exists>u. currentUser app = Some u \<and> isEnabled u \<and> (role u = AdminRole \<or> 0 < credits u))"
  by (auto simp: checkUserCanGenerate_def split: option.splits if_splits)

lemma gate_denies:
  "checkUserCanGenerate app = (app1, False) \<Longrightarrow> users app1 = users app"
  by (auto simp: checkUserCanGenerate_def split: option.splits if_splits)

lemma find_map_same:
  "find P us = Some u \<Longrightarrow> (\<And>v. P (g v) = P v) \<Longrightarrow> find P (map g us) = Some (g u)"
  by (induction us) (auto split: if_splits)

lemma currentUser_debit:
  assumes "currentUser app = Some u"
  shows "currentUser (updateUserCredits (user_id u) c app)
           = Some (u\<lparr>credits := max 0 (credits u + c)\<rparr>)"
proof -
  let ?g = "\<lambda>v. if user_id v = user_id u
                 then v\<lparr>credits := max 0 (credits v + c)\<rparr> else v"
  from assms have "find (\<lambda>v. Some (user_id v) = currentUserId app) (users app) = Some u"
    by (simp add: currentUser_def)
  then have "find (\<lambda>v. Some (user_id v) = currentUserId app) (map ?g (users app))
               = Some (?g u)"
    by (rule find_map_same) simp
  then show ?thesis
    by (simp add: currentUser_def updateUserCredits_def)
qed

lemma generation_denied:
  "checkUserCanGenerate app = (app1, False) \<Longrightarrow>
     handleGenericGeneration d now api pfx (app, st) = ((app1, st), None)"
  by (simp add: handleGenericGeneration_def)

lemma generation_failed:
  assumes "checkUserCanGenerate app = (app, True)"
    and "api = Inl err \<or> (\<exists>url. api = Inr url
            \<and> d url (pfx @ ''-'' @ decimal now @ ''.png'') = Inl err)"
  shows "handleGenericGeneration d now api pfx (app, st)
           = ((app, st\<lparr>isLoading := False,
                       error := Some (''Operation failed. ''
                                  @ (case err of ErrorObject m \<Rightarrow> m
                                     | NonError \<Rightarrow> ''An unknown error occurred.''))\<rparr>),
              Some False)"
proof -
  from gate_permits [OF assms(1)] obtain u where "currentUser app = Some u"
    by blast
  with assms show ?thesis
    by (auto simp: handleGenericGeneration_def catchGeneration_def Let_def)
qed

lemma generation_committed:
  assumes "checkUserCanGenerate app = (app, True)" and "currentUser app = Some u"
    and "api = Inr url" and "d url (pfx @ ''-'' @ decimal now @ ''.png'') = Inr f"
  shows "handleGenericGeneration d now api pfx (app, st)
           = ((if role u \<noteq> AdminRole then updateUserCredits (user_id u) (- 1) app else app,
               (appendImage f st)\<lparr>isLoading := False, error := None\<rparr>),
              Some True)"
  using assms
  by (simp add: handleGenericGeneration_def Let_def appendImage_def addImageToHistory_def)

text \<open>
  C3: a generation appends to the history and debits the credit as a pair. It commits
  (returns true) exactly when the gate permits it, the call resolves and the file is
  built; then the result image is appended to the history at the current position, and a
  session of a role other than admin has its balance lowered by one through
  \<open>max 0\<close> (the gate has seen a positive balance, so the new balance is one less), while
  an admin session leaves the application state as it is. In every other outcome, a
  failure or a denial, the history, the index and the users with their balances are
  unchanged.
\<close>

theorem generation_commit_atomic:
  "handleGenericGeneration d now api pfx (app, st) = ((app', st'), res) \<longrightarrow>
     (res = Some True \<longleftrightarrow>
        snd (checkUserCanGenerate app)
        \<and> (\<exists>url f. api = Inr url \<and> d url (pfx @ ''-'' @ decimal now @ ''.png'') = Inr f))
     \<and> (res = Some True \<longrightarrow>
          (\<exists>u url f. currentUser app = Some u \<and> api = Inr url
             \<and> d url (pfx @ ''-'' @ decimal now @ ''.png'') = Inr f
             \<and> history st' = take (nat (historyIndex st + 1)) (history st) @ [f]
             \<and> historyIndex st' = int (length (history st')) - 1
             \<and> (role u \<noteq> AdminRole \<longrightarrow>
                  users app'
                    = map (\<lambda>v. if user_id v = user_id u
                                then v\<lparr>credits := max 0 (credits v - 1)\<rparr> else v)
                        (users app)
                  \<and> currentUser app' = Some (u\<lparr>credits := max 0 (credits u - 1)\<rparr>)
                  \<and> max 0 (credits u - 1) = credits u - 1)
             \<and> (role u = AdminRole \<longrightarrow> app' = app)))
     \<and> (res \<noteq> Some True \<longrightarrow>
          history st' = history st \<and> historyIndex st' = historyIndex st
          \<and> users app' = users app)"
proof
  assume run: "handleGenericGeneration d now api pfx (app, st) = ((app', st'), res)"
  let ?name = "pfx @ ''-'' @ decimal now @ ''.png''"
  obtain app1 ok where gate: "checkUserCanGenerate app = (app1, ok)"
    by (cases "checkUserCanGenerate app")
  show "(res = Some True \<longleftrightarrow>
        snd (checkUserCanGenerate app)
        \<and> (\<exists>url f. api = Inr url \<and> d url ?name = Inr f))
     \<and> (res = Some True \<longrightarrow>
          (\<exists>u url f. currentUser app = Some u \<and> api = Inr url
             \<and> d url ?name = Inr f
             \<and> history st' = take (nat (historyIndex st + 1)) (history st) @ [f]
             \<and> historyIndex st' = int (length (history st')) - 1
             \<and> (role u \<noteq> AdminRole \<longrightarrow>
                  users app'
                    = map (\<lambda>v. if user_id v = user_id u
                                then v\<lparr>credits := max 0 (credits v - 1)\<rparr> else v)
                        (users app)
                  \<and> currentUser app' = Some (u\<lparr>credits := max 0 (credits u - 1)\<rparr>)
                  \<and> max 0 (credits u - 1) = credits u - 1)
             \<and> (role u = AdminRole \<longrightarrow> app' = app)))
     \<and> (res \<noteq> Some True \<longrightarrow>
          history st' = history st \<and> historyIndex st' = historyIndex st
          \<and> users app' = users app)"
  proof (cases ok)
    case False
    with gate run generation_denied [of app app1 d now api pfx st]
    have "res = None" "st' = st" "app' = app1"
      by simp_all
    with gate False gate_denies [of app app1] show ?thesis
      by simp
  next
    case True
    with gate gate_permits [of app app1] obtain u where
      g: "checkUserCanGenerate app = (app, True)" and u: "currentUser app = Some u"
      and p: "role u = AdminRole \<or> 0 < credits u"
      by auto
    consider (thrown) err where "api = Inl err"
      | (nofile) url err where "api = Inr url" "d url ?name = Inl err"
      | (built) url f where "api = Inr url" "d url ?name = Inr f"
      by (cases api; cases "d (projr api) ?name") auto
    then show ?thesis
    proof cases
      case thrown
      with run generation_failed [OF g, of api err d pfx now st]
      show ?thesis by auto
    next
      case nofile
      with run generation_failed [OF g, of api err d pfx now st]
      show ?thesis by auto
    next
      case built
      from run generation_committed [where d = d and st = st, OF g u built]
      have r: "res = Some True"
        and a: "app' = (if role u \<noteq> AdminRole
                        then updateUserCredits (user_id u) (- 1) app else app)"
        and s: "st' = (appendImage f st)\<lparr>isLoading := False, error := None\<rparr>"
        by simp_all
      from s have h: "history st' = take (nat (historyIndex st + 1)) (history st) @ [f]"
        and i: "historyIndex st' = int (length (history st')) - 1"
        by (simp_all add: appendImage_history appendImage_index)
      from a currentUser_debit [OF u, of "- 1"] p
      have c: "role u \<noteq> AdminRole \<longrightarrow>
                  users app'
                    = map (\<lambda>v. if user_id v = user_id u
                                then v\<lparr>credits := max 0 (credits v - 1)\<rparr> else v)
                        (users app)
                  \<and> currentUser app' = Some (u\<lparr>credits := max 0 (credits u - 1)\<rparr>)
                  \<and> max 0 (credits u - 1) = credits u - 1"
        by (auto simp: updateUserCredits_def)
      from a have d: "role u = AdminRole \<longrightarrow> app' = app"
        by simp
      from r g u built h i c d show ?thesis
        by auto
    qed
  qed
qed

theorem generation_commit_atomic_witness:
  "snd (handleGenericGeneration plainDataURLtoFile 0 (Inr ''data:image/png;base64,AAAA'')
          ''edited'' (session initialUsers (Some ''u002''), historyABC)) = Some True
   \<and> history (snd (fst (handleGenericGeneration plainDataURLtoFile 0
          (Inr ''data:image/png;base64,AAAA'') ''edited''
          (session initialUsers (Some ''u002''), historyABC))))
       = [fileA, fileB, fileC,
          \<lparr>fileName = ''edited-'' @ decimal 0 @ ''.png'',
           fileData = ''data:image/png;base64,AAAA''\<rparr>]
   \<and> map_option credits (currentUser (fst (fst (handleGenericGeneration plainDataURLtoFile 0
          (Inr ''data:image/png;base64,AAAA'') ''edited''
          (session initialUsers (Some ''u002''), historyABC)))))
       = Some 14
   \<and> snd (handleGenericGeneration plainDataURLtoFile 0 (Inl (ErrorObject ''boom''))
          ''edited'' (session initialUsers (Some ''u002''), historyABC)) \<noteq> Some True
   \<and> history (snd (fst (handleGenericGeneration plainDataURLtoFile 0
          (Inl (ErrorObject ''boom'')) ''edited''
          (session initialUsers (Some ''u002''), historyABC))))
       = [fileA, fileB, fileC]
   \<and> users (fst (fst (handleGenericGeneration plainDataURLtoFile 0
          (Inl (ErrorObject ''boom'')) ''edited''
          (session initialUsers (Some ''u002''), historyABC))))
       = initialUsers"
proof -
  let ?app = "session initialUsers (Some ''u002'')"
  let ?ok = "handleGenericGeneration plainDataURLtoFile 0
               (Inr ''data:image/png;base64,AAAA'') ''edited'' (?app, historyABC)"
  let ?ko = "handleGenericGeneration plainDataURLtoFile 0
               (Inl (ErrorObject ''boom'')) ''edited'' (?app, historyABC)"
  have gate: "snd (checkUserCanGenerate ?app)"
    by (simp add: checkUserCanGenerate_def session_defs)
  have user: "currentUser ?app = Some bob" "role bob \<noteq> AdminRole" "credits bob = 15"
    by (simp_all add: session_defs)
  have hist: "history historyABC = [fileA, fileB, fileC]" "historyIndex historyABC = 2"
    by (simp_all add: editor_example_defs)
  have us: "users ?app = initialUsers"
    by (simp add: session_def)
  have ok: "?ok = ((fst (fst ?ok), snd (fst ?ok)), snd ?ok)"
    and ko: "?ko = ((fst (fst ?ko), snd (fst ?ko)), snd ?ko)"
    by simp_all
  from gate user hist
    generation_commit_atomic [where d = plainDataURLtoFile, THEN mp, OF ok]
  have 1: "snd ?ok = Some True
           \<and> history (snd (fst ?ok))
               = [fileA, fileB, fileC,
                  \<lparr>fileName = ''edited-'' @ decimal 0 @ ''.png'',
                   fileData = ''data:image/png;base64,AAAA''\<rparr>]
           \<and> map_option credits (currentUser (fst (fst ?ok))) = Some 14"
    by (auto simp: plainDataURLtoFile_def)
  from gate us hist
    generation_commit_atomic [where d = plainDataURLtoFile, THEN mp, OF ko]
  have 2: "snd ?ko \<noteq> Some True \<and> history (snd (fst ?ko)) = [fileA, fileB, fileC]
           \<and> users (fst (fst ?ko)) = initialUsers"
    by auto
  from 1 2 show ?thesis
    by blast
qed

lemma gate_permits_same:
  "snd (checkUserCanGenerate app) \<Longrightarrow> checkUserCanGenerate app = (app, True)"
  using gate_permits [of app "fst (checkUserCanGenerate app)"]
  by (cases "checkUserCanGenerate app") simp

text \<open>
  C7, as stated, would surface the failure reason unmodified. The \<^verbatim>\<open>catch\<close> block
  stores the message of a thrown \<^verbatim>\<open>Error\<close> behind the prefix
  \<^verbatim>\<open>Operation failed. \<close> and replaces anything else thrown by a fixed text; the
  caller receives \<^verbatim>\<open>false\<close>.
\<close>

theorem failure_reason_counterexample:
  "handleGenericGeneration plainDataURLtoFile 0 (Inl (ErrorObject ''boom'')) ''edited''
       (session initialUsers (Some ''u002''), historyABC)
     = ((session initialUsers (Some ''u002''),
         historyABC\<lparr>error := Some ''Operation failed. boom''\<rparr>), Some False)
   \<and> Some ''Operation failed. boom'' \<noteq> Some ''boom''
   \<and> handleGenericGeneration plainDataURLtoFile 0 (Inl NonError) ''edited''
         (session initialUsers (Some ''u002''), historyABC)
       = ((session initialUsers (Some ''u002''),
           historyABC\<lparr>error := Some ''Operation failed. An unknown error occurred.''\<rparr>),
          Some False)"
proof -
  have "checkUserCanGenerate (session initialUsers (Some ''u002''))
          = (session initialUsers (Some ''u002''), True)"
    by (simp add: checkUserCanGenerate_def session_defs)
  from generation_failed [OF this, of "Inl (ErrorObject ''boom'')" "ErrorObject ''boom''"
                            plainDataURLtoFile "''edited''" 0 historyABC]
    generation_failed [OF this, of "Inl NonError" NonError
                            plainDataURLtoFile "''edited''" 0 historyABC]
  show ?thesis
    by (simp add: editor_example_defs)
qed

text \<open>
  C7, amended: when a permitted generation fails, the handler returns false and the
  error shown is \<^verbatim>\<open>Operation failed. \<close> followed by the message of the thrown
  \<^verbatim>\<open>Error\<close>, word for word, or by \<^verbatim>\<open>An unknown error occurred.\<close> when what was
  thrown is not an \<^verbatim>\<open>Error\<close>; nothing else changes but the loading flag. In
  particular a failure of the response normalizer is shown with its own message after
  the prefix.
\<close>

theorem failure_reason_surfaced:
  "(snd (checkUserCanGenerate app)
      \<and> (api = Inl err
          \<or> (\<exists>url. api = Inr url \<and> d url (pfx @ ''-'' @ decimal now @ ''.png'') = Inl err))
      \<longrightarrow>
      handleGenericGeneration d now api pfx (app, st)
        = ((app, st\<lparr>isLoading := False,
                    error := Some (''Operation failed. ''
                               @ (case err of ErrorObject m \<Rightarrow> m
                                  | NonError \<Rightarrow> ''An unknown error occurred.''))\<rparr>),
           Some False))
   \<and> (snd (checkUserCanGenerate app) \<and> handleApiResponse r ctx = Inl e \<longrightarrow>
        handleGenericGeneration d now (apiOutcome r ctx) pfx (app, st)
          = ((app, st\<lparr>isLoading := False,
                      error := Some (''Operation failed. '' @ error_message e)\<rparr>),
             Some False))"
proof (intro conjI impI)
  assume a: "snd (checkUserCanGenerate app)
      \<and> (api = Inl err
          \<or> (\<exists>url. api = Inr url \<and> d url (pfx @ ''-'' @ decimal now @ ''.png'') = Inl err))"
  then have g: "checkUserCanGenerate app = (app, True)"
    by (simp add: gate_permits_same)
  from a generation_failed [where d = d and st = st, OF g]
  show "handleGenericGeneration d now api pfx (app, st)
        = ((app, st\<lparr>isLoading := False,
                    error := Some (''Operation failed. ''
                               @ (case err of ErrorObject m \<Rightarrow> m
                                  | NonError \<Rightarrow> ''An unknown error occurred.''))\<rparr>),
           Some False)"
    by blast
next
  assume a: "snd (checkUserCanGenerate app) \<and> handleApiResponse r ctx = Inl e"
  then have g: "checkUserCanGenerate app = (app, True)"
    by (simp add: gate_permits_same)
  from a have o: "apiOutcome r ctx = Inl (ErrorObject (error_message e))"
    by (simp add: apiOutcome_def throw_api_error_def)
  from generation_failed [where d = d and st = st and pfx = pfx and now = now, OF g, of "apiOutcome r ctx" "ErrorObject (error_message e)"] o
  show "handleGenericGeneration d now (apiOutcome r ctx) pfx (app, st)
          = ((app, st\<lparr>isLoading := False,
                      error := Some (''Operation failed. '' @ error_message e)\<rparr>),
             Some False)"
    by simp
qed

theorem failure_reason_surfaced_witness:
  "snd (checkUserCanGenerate (session initialUsers (Some ''u002'')))
   \<and> handleApiResponse safetyNoImage ''edit''
       = Inl (AbnormalCompletion ''Image generation for edit stopped unexpectedly. Reason: SAFETY. This often relates to safety settings.'')
   \<and> error (snd (fst (handleGenericGeneration plainDataURLtoFile 0
                         (apiOutcome safetyNoImage ''edit'') ''edited''
                         (session initialUsers (Some ''u002''), historyABC))))
       = Some ''Operation failed. Image generation for edit stopped unexpectedly. Reason: SAFETY. This often relates to safety settings.''"
proof -
  have g: "snd (checkUserCanGenerate (session initialUsers (Some ''u002'')))"
    by (simp add: checkUserCanGenerate_def session_defs)
  have h: "handleApiResponse safetyNoImage ''edit''
       = Inl (AbnormalCompletion ''Image generation for edit stopped unexpectedly. Reason: SAFETY. This often relates to safety settings.'')"
    by (simp add: handleApiResponse_def noImageOutcome_def imagePartFromResponse_def
        firstCandidate_def finishReasonOf_def blockReasonOf_def truthy_def js_template_def
        example_defs)
  from g h
    failure_reason_surfaced [where app = "session initialUsers (Some ''u002'')"
      and r = safetyNoImage and ctx = "''edit''" and d = plainDataURLtoFile and now = 0
      and pfx = "''edited''" and st = historyABC]
  show ?thesis
    by simp
qed

lemma canvasDimension_nat: "canvasDimension (of_nat n) = n"
  by (simp add: canvasDimension_def)

lemma canvasDimension_half_more:
  "canvasDimension (of_nat n + of_nat n * (1 / 2)) = (3 * n) div 2"
proof -
  have "(of_nat n :: rat) + of_nat n * (1 / 2) = of_nat (3 * n) / of_nat 2"
    by simp
  then have "\<lfloor>(of_nat n :: rat) + of_nat n * (1 / 2)\<rfloor> = int ((3 * n) div 2)"
    by (simp only: floor_divide_of_nat_eq)
  then show ?thesis
    by (simp add: canvasDimension_def)
qed

lemma canvasDimension_three_halves:
  "canvasDimension (3 * of_nat n / 2) = (3 * n) div 2"
  using canvasDimension_half_more [of n] by simp

lemma half_more_even:
  assumes "even n"
  shows "(of_nat ((3 * n) div 2) :: rat) = of_nat n * (3 / 2)"
proof -
  from assms obtain k where "n = 2 * k"
    by (auto elim: evenE)
  then show ?thesis
    by simp
qed

text \<open>
  C6, as stated, would give the canvas the width \<open>W * 1.5\<close> for every source image. The
  code assigns that number to \<^verbatim>\<open>canvas.width\<close>, an integer attribute: for the odd
  width \<open>301\<close> the canvas is \<open>451\<close> wide, not \<open>451.5\<close>, and the original, drawn from
  \<open>x = 150.5\<close>, does not end at the canvas edge.
\<close>

theorem expand_layout_counterexample:
  "canvasWidth (expandLayout Left 301 200) = 451
   \<and> (of_nat 451 :: rat) \<noteq> 301 * (3 / 2)
   \<and> imageX (expandLayout Left 301 200) = 301 / 2
   \<and> imageX (expandLayout Left 301 200) + 301
        \<noteq> of_nat (canvasWidth (expandLayout Left 301 200))"
proof -
  have "canvasWidth (expandLayout Left 301 200) = (3 * 301) div 2"
    using canvasDimension_half_more [of 301]
    by (simp add: expandLayout_def expandVars_def EXPANSION_FACTOR_def)
  then have w: "canvasWidth (expandLayout Left 301 200) = 451"
    by simp
  have x: "imageX (expandLayout Left 301 200) = 301 / 2"
    by (simp add: expandLayout_def expandVars_def EXPANSION_FACTOR_def)
  show ?thesis
    unfolding w x by simp
qed

text \<open>
  C6, amended: for a source image of width \<open>W\<close> and height \<open>H\<close>, expanding to the left
  computes the width \<open>W * 1.5\<close> and composes a canvas of that width truncated to an
  integer, \<open>(3 * W) div 2\<close>, and of height \<open>H\<close>, with the original drawn with its left edge
  at \<open>x = W * 0.5\<close>; when \<open>W\<close> is even the canvas is exactly \<open>W * 1.5\<close> wide and the original
  ends at its right edge. The factor is the constant \<open>0.5\<close>. Expanding to the top gives
  the height \<open>(3 * H) div 2\<close> with the original drawn from \<open>y = H * 0.5\<close>, down to the
  bottom edge when \<open>H\<close> is even, the blank space above it; expanding to the bottom or to
  the right draws the original at the origin, against the top and the left edge.
\<close>

theorem expand_layout:
  "canvasWidth (expandLayout Left W H) = (3 * W) div 2
   \<and> canvasHeight (expandLayout Left W H) = H
   \<and> imageX (expandLayout Left W H) = of_nat W * (1 / 2)
   \<and> imageY (expandLayout Left W H) = 0
   \<and> newWidth (expandVars Left W H) = of_nat W * (3 / 2)
   \<and> (even W \<longrightarrow>
        of_nat (canvasWidth (expandLayout Left W H)) = (of_nat W :: rat) * (3 / 2)
        \<and> imageX (expandLayout Left W H) + of_nat W
            = of_nat (canvasWidth (expandLayout Left W H)))
   \<and> EXPANSION_FACTOR = 1 / 2
   \<and> canvasWidth (expandLayout Top W H) = W
   \<and> canvasHeight (expandLayout Top W H) = (3 * H) div 2
   \<and> imageX (expandLayout Top W H) = 0
   \<and> imageY (expandLayout Top W H) = of_nat H * (1 / 2)
   \<and> newHeight (expandVars Top W H) = of_nat H * (3 / 2)
   \<and> (even H \<longrightarrow>
        of_nat (canvasHeight (expandLayout Top W H)) = (of_nat H :: rat) * (3 / 2)
        \<and> imageY (expandLayout Top W H) + of_nat H
            = of_nat (canvasHeight (expandLayout Top W H)))
   \<and> expandLayout Bottom W H
       = \<lparr>canvasWidth = W, canvasHeight = (3 * H) div 2, imageX = 0, imageY = 0\<rparr>
   \<and> expandLayout Right W H
       = \<lparr>canvasWidth = (3 * W) div 2, canvasHeight = H, imageX = 0, imageY = 0\<rparr>"
proof -
  have l: "expandLayout Left W H
             = \<lparr>canvasWidth = (3 * W) div 2, canvasHeight = H,
                imageX = of_nat W * (1 / 2), imageY = 0\<rparr>"
    by (simp add: expandLayout_def expandVars_def EXPANSION_FACTOR_def
        canvasDimension_nat canvasDimension_three_halves)
  have t: "expandLayout Top W H
             = \<lparr>canvasWidth = W, canvasHeight = (3 * H) div 2,
                imageX = 0, imageY = of_nat H * (1 / 2)\<rparr>"
    by (simp add: expandLayout_def expandVars_def EXPANSION_FACTOR_def
        canvasDimension_nat canvasDimension_three_halves)
  have b: "expandLayout Bottom W H
       = \<lparr>canvasWidth = W, canvasHeight = (3 * H) div 2, imageX = 0, imageY = 0\<rparr>"
    by (simp add: expandLayout_def expandVars_def EXPANSION_FACTOR_def
        canvasDimension_nat canvasDimension_three_halves)
  have r: "expandLayout Right W H
       = \<lparr>canvasWidth = (3 * W) div 2, canvasHeight = H, imageX = 0, imageY = 0\<rparr>"
    by (simp add: expandLayout_def expandVars_def EXPANSION_FACTOR_def
        canvasDimension_nat canvasDimension_three_halves)
  have v: "newWidth (expandVars Left W H) = of_nat W * (3 / 2)"
    "newHeight (expandVars Top W H) = of_nat H * (3 / 2)"
    by (simp_all add: expandVars_def EXPANSION_FACTOR_def)
  have e: "even W \<longrightarrow> (of_nat ((3 * W) div 2) :: rat) = of_nat W * (3 / 2)"
    "even H \<longrightarrow> (of_nat ((3 * H) div 2) :: rat) = of_nat H * (3 / 2)"
    by (simp_all add: half_more_even)
  have f: "EXPANSION_FACTOR = 1 / 2"
    by (simp add: EXPANSION_FACTOR_def)
  from e show ?thesis
    unfolding l t b r v f by simp
qed

theorem expand_layout_witness:
  "even (300 :: nat)
   \<and> expandLayout Left 300 200
       = \<lparr>canvasWidth = 450, canvasHeight = 200, imageX = 150, imageY = 0\<rparr>
   \<and> imageX (expandLayout Left 300 200) + 300
       = of_nat (canvasWidth (expandLayout Left 300 200))
   \<and> expandLayout Top 300 200
       = \<lparr>canvasWidth = 300, canvasHeight = 300, imageX = 0, imageY = 100\<rparr>"
proof -
  have e: "even (300 :: nat)" "even (200 :: nat)"
    by simp_all
  have "expandLayout Left 300 200
          = \<lparr>canvasWidth = canvasWidth (expandLayout Left 300 200),
             canvasHeight = canvasHeight (expandLayout Left 300 200),
             imageX = imageX (expandLayout Left 300 200),
             imageY = imageY (expandLayout Left 300 200)\<rparr>"
    "expandLayout Top 300 200
          = \<lparr>canvasWidth = canvasWidth (expandLayout Top 300 200),
             canvasHeight = canvasHeight (expandLayout Top 300 200),
             imageX = imageX (expandLayout Top 300 200),
             imageY = imageY (expandLayout Top 300 200)\<rparr>"
    by simp_all
  with e expand_layout [of 300 200] show ?thesis
    by simp
qed

end
